theory Spec2Isabelle
  imports Main "HOL-Library.Word" "HOL-Library.AList" "HOL-Library.Multiset"
begin

section \<open>Errors\<close>

text \<open>
  Go's \<open>error\<close> values as data. \<open>PgError\<close> is pgconn's \<open>*PgError\<close> with its SQLSTATE code,
  \<open>ErrText\<close> an error made from a message alone (\<open>fmt.Errorf\<close> without \<open>%w\<close>, pgx's
  \<open>ErrNoRows\<close>), and \<open>Wrap msg e\<close> is \<open>fmt.Errorf("msg: %w", e)\<close>. An operation that returns
  Go's \<open>error\<close> returns \<open>error option\<close>, with \<open>None\<close> for \<open>nil\<close>.
\<close>

datatype error = PgError string | ErrText string | Wrap string error

text \<open>\<open>errors.As(err, &tError)\<close> with \<open>tError *pgconn.PgError\<close>: the first \<open>PgError\<close> in
  the chain of wrapped errors, by its code.\<close>

fun errors_As_PgError :: "error \<Rightarrow> string option" where
  "errors_As_PgError (PgError code) = Some code"
| "errors_As_PgError (ErrText msg) = None"
| "errors_As_PgError (Wrap msg e) = errors_As_PgError e"

text \<open>\<open>pgerrcode.IsConnectionException\<close>: the codes of SQLSTATE class 08.\<close>

definition IsConnectionException :: "string \<Rightarrow> bool" where
  "IsConnectionException code =
     (code \<in> set [''08000'', ''08003'', ''08006'', ''08001'', ''08004'', ''08007'', ''08P01''])"

text \<open>The test \<open>errors.As(err, &tError) && pgerrcode.IsConnectionException(tError.Code)\<close>
  of \<open>errorHanlder\<close>, on a possibly nil error.\<close>

definition transient :: "error option \<Rightarrow> bool" where
  "transient err =
     (case err of
        None \<Rightarrow> False
      | Some e \<Rightarrow>
          (case errors_As_PgError e of
             None \<Rightarrow> False
           | Some code \<Rightarrow> IsConnectionException code))"

section \<open>The resilience layer: \<open>errorHanlder\<close>\<close>

text \<open>
  The three policy fields of \<open>DBStorage\<close>; the connection is the backend state that every
  operation takes and returns. Go's \<open>int\<close> is modelled by \<open>int\<close>: the loop counter stays
  below \<open>retryCount\<close>, and the delay is recorded as the number of seconds the code hands to
  \<open>time.Duration\<close>.
\<close>

record DBStorage =
  retryCount :: int
  duration :: int
  durationPolicy :: int

text \<open>
  What a call of \<open>errorHanlder\<close> does besides running the wrapped function: \<open>Invoke\<close> for
  each call of \<open>handelFunc\<close>, \<open>Sleep d\<close> for each \<open>time.Sleep\<close> of \<open>d\<close> seconds, in order.
  The wrapped function is a closure over the state \<open>'w\<close> it reads and writes (the
  connection and the variables it captures).
\<close>

datatype event = Invoke | Sleep int

text \<open>The \<open>for i := 0; i < dbs.retryCount; i++\<close> loop, entered with the error of the
  previous attempt.\<close>

function retry_loop ::
  "DBStorage \<Rightarrow> ('w \<Rightarrow> error option \<times> 'w) \<Rightarrow> int \<Rightarrow> int \<Rightarrow> error option \<Rightarrow> 'w \<Rightarrow> event list
     \<Rightarrow> error option \<times> 'w \<times> event list" where
  "retry_loop dbs handelFunc i d err w tr =
     (if i < retryCount dbs then
        (case handelFunc w of
           (err', w') \<Rightarrow>
             if \<not> transient err' then (err', w', tr @ [Sleep d, Invoke])
             else retry_loop dbs handelFunc (i + 1) (d + durationPolicy dbs) err' w'
                    (tr @ [Sleep d, Invoke]))
      else (err, w, tr))"
  by pat_completeness auto
termination
  by (relation "measure (\<lambda>(dbs, handelFunc, i, d, err, w, tr). nat (retryCount dbs - i))") auto

declare retry_loop.simps [simp del]

definition errorHanlder ::
  "DBStorage \<Rightarrow> ('w \<Rightarrow> error option \<times> 'w) \<Rightarrow> 'w \<Rightarrow> error option \<times> 'w \<times> event list" where
  "errorHanlder dbs handelFunc w =
     (case handelFunc w of
        (err, w1) \<Rightarrow>
          if err = None \<or> retryCount dbs \<le> 0 then (err, w1, [Invoke])
          else if transient err then
            retry_loop dbs handelFunc 0 (duration dbs) err w1 [Invoke]
          else (err, w1, [Invoke]))"

text \<open>The number of \<open>handelFunc\<close> calls and the seconds slept in a trace.\<close>

definition invocations :: "event list \<Rightarrow> nat" where
  "invocations tr = length (filter (\<lambda>ev. ev = Invoke) tr)"

fun slept :: "event list \<Rightarrow> int list" where
  "slept [] = []"
| "slept (Invoke # tr) = slept tr"
| "slept (Sleep d # tr) = d # slept tr"

subsection \<open>The policy in the specification's words\<close>

text \<open>
  The state and the error after the \<open>k\<close>-th further call of the wrapped function, begun in
  the state \<open>w\<close> that the first call left: \<open>attempt h k (err, w)\<close>.
\<close>

fun attempt :: "('w \<Rightarrow> error option \<times> 'w) \<Rightarrow> nat \<Rightarrow> error option \<times> 'w \<Rightarrow> error option \<times> 'w" where
  "attempt h 0 r = r"
| "attempt h (Suc k) r = h (snd (attempt h k r))"

text \<open>
  The number of retries the specification asks for: none when the first attempt succeeds,
  fails with an error that is not transient, or \<open>retryCount\<close> is not positive; otherwise
  retry while the last attempt failed transiently, at most \<open>retryCount\<close> times.
\<close>

fun retries_from :: "('w \<Rightarrow> error option \<times> 'w) \<Rightarrow> nat \<Rightarrow> error option \<times> 'w \<Rightarrow> nat" where
  "retries_from h 0 r = 0"
| "retries_from h (Suc n) r =
     (if transient (fst r) then Suc (retries_from h n (h (snd r))) else 0)"

definition retries :: "DBStorage \<Rightarrow> ('w \<Rightarrow> error option \<times> 'w) \<Rightarrow> 'w \<Rightarrow> nat" where
  "retries dbs h w = retries_from h (nat (retryCount dbs)) (h w)"

text \<open>The trace the specification asks for with \<open>k\<close> retries: one call, then \<open>k\<close> times a
  sleep and a call, the \<open>j\<close>-th sleep being the initial delay plus \<open>j\<close> increments.\<close>

definition policy_trace :: "DBStorage \<Rightarrow> nat \<Rightarrow> event list" where
  "policy_trace dbs k =
     Invoke # concat (map (\<lambda>j. [Sleep (duration dbs + int j * durationPolicy dbs), Invoke]) [0..<k])"

definition policy_spec ::
  "DBStorage \<Rightarrow> ('w \<Rightarrow> error option \<times> 'w) \<Rightarrow> 'w \<Rightarrow> error option \<times> 'w \<times> event list" where
  "policy_spec dbs h w =
     (let k = retries dbs h w; r = attempt h k (h w) in (fst r, snd r, policy_trace dbs k))"

text \<open>An operation that answers from a script, one entry per call, and succeeds once the
  script is used up: the state is the rest of the script.\<close>

definition scripted :: "error option list \<Rightarrow> error option \<times> error option list" where
  "scripted s = (case s of [] \<Rightarrow> (None, []) | r # rest \<Rightarrow> (r, rest))"


section \<open>The backend behind \<open>PgxIface\<close>\<close>

text \<open>
  A gauge is a \<open>float64\<close>. The store only moves it to and from a \<open>DOUBLE PRECISION\<close>
  column, so it is modelled by its 64-bit pattern (3.5 is \<open>0x400C000000000000\<close>, 9.1 is
  \<open>0x4022333333333333\<close>). A counter is an \<open>int64\<close> in Go and an \<open>INTEGER\<close> column in
  the database, a signed 32-bit integer.
\<close>

type_synonym float64 = "64 word"

definition int4 :: "int \<Rightarrow> bool" where
  "int4 v = (- 2147483648 \<le> v \<and> v \<le> 2147483647)"

text \<open>
  The two relations of \<open>createTables\<close>, each keyed uniquely by \<open>Name\<close>; \<open>None\<close> is a
  relation that does not exist.
\<close>

record relations =
  gauges :: "(string \<rightharpoonup> float64) option"
  counters :: "(string \<rightharpoonup> int) option"

text \<open>The statements \<open>Updates\<close> queues with \<open>batch.Queue\<close>: \<open>queryGauges\<close> and
  \<open>queryCounters\<close> with their arguments.\<close>

datatype queued = QGauge string float64 | QCounter string int

text \<open>What the code sends over the connection, one constructor for each query text.\<close>

datatype request =
    ReqBegin
  | ReqCommit
  | ReqRollback
  | ReqTableExist string
  | ReqCreateGauges
  | ReqCreateCounters
  | ReqUpsertCounter string int
  | ReqUpsertGauge string float64
  | ReqSelectCounter string
  | ReqSelectGauge string
  | ReqBatch "queued list"

text \<open>
  The connection and the database behind it. \<open>db\<close> is what the statements of the
  connection see, \<open>saved\<close> the relations as they were when the open transaction began,
  \<open>issued\<close> logs every request sent. \<open>faults\<close> is the schedule of the environment: each
  round trip takes the head; \<open>Some e\<close> makes the round trip fail with \<open>e\<close> before the
  statement runs (a lost connection, or any rejection by the backend that the statement
  semantics below does not describe), \<open>None\<close> or an exhausted schedule lets it through.
\<close>

record backend =
  db :: relations
  saved :: "relations option"
  faults :: "error option list"
  issued :: "request list"

definition round_trip :: "request \<Rightarrow> backend \<Rightarrow> error option \<times> backend" where
  "round_trip rq w =
     (case faults w of
        [] \<Rightarrow> (None, w\<lparr>issued := issued w @ [rq]\<rparr>)
      | f # fs \<Rightarrow> (f, w\<lparr>faults := fs, issued := issued w @ [rq]\<rparr>))"

subsection \<open>Statements\<close>

text \<open>\<open>selectQuery\<close>: whether a table of that name exists.\<close>

definition table_exist :: "string \<Rightarrow> relations \<Rightarrow> bool" where
  "table_exist name r =
     (if name = ''gauges'' then gauges r \<noteq> None
      else if name = ''counters'' then counters r \<noteq> None
      else False)"

text \<open>\<open>createGaugesQuery\<close> and \<open>createCountersQuery\<close>: \<open>CREATE TABLE\<close> fails with
  \<open>duplicate_table\<close> on a relation that exists.\<close>

definition create_gauges :: "relations \<Rightarrow> error option \<times> relations" where
  "create_gauges r =
     (case gauges r of
        None \<Rightarrow> (None, r\<lparr>gauges := Some Map.empty\<rparr>)
      | Some rel \<Rightarrow> (Some (PgError ''42P07''), r))"

definition create_counters :: "relations \<Rightarrow> error option \<times> relations" where
  "create_counters r =
     (case counters r of
        None \<Rightarrow> (None, r\<lparr>counters := Some Map.empty\<rparr>)
      | Some rel \<Rightarrow> (Some (PgError ''42P07''), r))"

text \<open>
  Both relations declare \<open>Name VARCHAR(150)\<close>: a name of more than 150 characters does
  not fit the column.
\<close>

definition varchar150 :: "string \<Rightarrow> bool" where
  "varchar150 name = (length name \<le> 150)"

text \<open>
  The counter upsert: \<open>INSERT ... ON CONFLICT (Name) DO UPDATE SET Delta = counters.Delta +
  EXCLUDED.Delta RETURNING *\<close>, then \<open>SELECT Delta\<close>. A value outside \<open>INTEGER\<close>, as the
  parameter or as the sum, is rejected (\<open>numeric_value_out_of_range\<close>), a name that does
  not fit the column is rejected (\<open>string_data_right_truncation\<close>), and the row stays as
  it was; a missing relation is \<open>undefined_table\<close>.
\<close>

definition upsert_counter :: "string \<Rightarrow> int \<Rightarrow> relations \<Rightarrow> (error + int) \<times> relations" where
  "upsert_counter name d r =
     (case counters r of
        None \<Rightarrow> (Inl (PgError ''42P01''), r)
      | Some rel \<Rightarrow>
          if \<not> int4 d then (Inl (PgError ''22003''), r)
          else if \<not> varchar150 name then (Inl (PgError ''22001''), r)
          else
            (let new = (case rel name of None \<Rightarrow> d | Some old \<Rightarrow> old + d)
             in if \<not> int4 new then (Inl (PgError ''22003''), r)
                else (Inr new, r\<lparr>counters := Some (rel(name \<mapsto> new))\<rparr>)))"

text \<open>The gauge upsert: \<open>ON CONFLICT (Name) DO UPDATE SET Value = EXCLUDED.Value\<close>, with
  the same bound on the name.\<close>

definition upsert_gauge :: "string \<Rightarrow> float64 \<Rightarrow> relations \<Rightarrow> (error + float64) \<times> relations" where
  "upsert_gauge name v r =
     (case gauges r of
        None \<Rightarrow> (Inl (PgError ''42P01''), r)
      | Some rel \<Rightarrow>
          if \<not> varchar150 name then (Inl (PgError ''22001''), r)
          else (Inr v, r\<lparr>gauges := Some (rel(name \<mapsto> v))\<rparr>))"

text \<open>\<open>SELECT Delta FROM counters WHERE Name = $1\<close> and its gauge twin; scanning an empty
  result is pgx's \<open>ErrNoRows\<close>.\<close>

definition select_counter :: "string \<Rightarrow> relations \<Rightarrow> (error + int) \<times> relations" where
  "select_counter name r =
     (case counters r of
        None \<Rightarrow> (Inl (PgError ''42P01''), r)
      | Some rel \<Rightarrow>
          (case rel name of
             None \<Rightarrow> (Inl (ErrText ''no rows in result set''), r)
           | Some c \<Rightarrow> (Inr c, r)))"

definition select_gauge :: "string \<Rightarrow> relations \<Rightarrow> (error + float64) \<times> relations" where
  "select_gauge name r =
     (case gauges r of
        None \<Rightarrow> (Inl (PgError ''42P01''), r)
      | Some rel \<Rightarrow>
          (case rel name of
             None \<Rightarrow> (Inl (ErrText ''no rows in result set''), r)
           | Some g \<Rightarrow> (Inr g, r)))"

text \<open>A batch runs its statements in order and stops at the first that fails; what the
  earlier statements wrote stays in the open transaction until it is committed or rolled
  back.\<close>

fun run_queued :: "queued \<Rightarrow> relations \<Rightarrow> error option \<times> relations" where
  "run_queued (QGauge name v) r =
     (case upsert_gauge name v r of (Inl e, r') \<Rightarrow> (Some e, r') | (Inr x, r') \<Rightarrow> (None, r'))"
| "run_queued (QCounter name d) r =
     (case upsert_counter name d r of (Inl e, r') \<Rightarrow> (Some e, r') | (Inr x, r') \<Rightarrow> (None, r'))"

fun run_batch :: "queued list \<Rightarrow> relations \<Rightarrow> error option \<times> relations" where
  "run_batch [] r = (None, r)"
| "run_batch (q # qs) r =
     (case run_queued q r of
        (Some e, r') \<Rightarrow> (Some e, r')
      | (None, r') \<Rightarrow> run_batch qs r')"

subsection \<open>The methods of the connection\<close>

text \<open>
  \<open>dbs.conn.QueryRow(ctx, query, args...).Scan(&dest)\<close> as the closure \<open>errorHanlder\<close>
  wraps: its state is the connection and the captured variable \<open>dest\<close>, which is written
  only when a row was scanned.
\<close>

definition QueryRow_Scan ::
  "request \<Rightarrow> (relations \<Rightarrow> (error + 'a) \<times> relations) \<Rightarrow> backend \<times> 'a \<Rightarrow> error option \<times> backend \<times> 'a" where
  "QueryRow_Scan rq stmt =
     (\<lambda>(w, dest).
        case round_trip rq w of
          (Some e, w1) \<Rightarrow> (Some e, (w1, dest))
        | (None, w1) \<Rightarrow>
            (case stmt (db w1) of
               (Inl e, r) \<Rightarrow> (Some e, (w1\<lparr>db := r\<rparr>, dest))
             | (Inr v, r) \<Rightarrow> (None, (w1\<lparr>db := r\<rparr>, v))))"

text \<open>\<open>dbs.conn.Exec(ctx, query)\<close> and \<open>dbs.conn.SendBatch(ctx, batch).Close()\<close>, which
  return an error only.\<close>

definition Exec :: "request \<Rightarrow> (relations \<Rightarrow> error option \<times> relations) \<Rightarrow> backend \<Rightarrow> error option \<times> backend" where
  "Exec rq stmt w =
     (case round_trip rq w of
        (Some e, w1) \<Rightarrow> (Some e, w1)
      | (None, w1) \<Rightarrow> (case stmt (db w1) of (err, r) \<Rightarrow> (err, w1\<lparr>db := r\<rparr>)))"

definition SendBatch_Close :: "queued list \<Rightarrow> backend \<Rightarrow> error option \<times> backend" where
  "SendBatch_Close batch = Exec (ReqBatch batch) (run_batch batch)"

text \<open>
  \<open>pgx.BeginFunc(ctx, dbs.conn, fn)\<close>: begin a transaction, run \<open>fn\<close>; when \<open>fn\<close> fails roll
  back and return its error, otherwise commit and return the error of the commit. The
  statements of \<open>fn\<close> go through \<open>dbs.conn\<close>, the connection the transaction was begun on:
  a rollback, and a commit that fails, leave the relations as they were at \<open>Begin\<close>.
\<close>

definition restore :: "backend \<Rightarrow> backend" where
  "restore w = (case saved w of None \<Rightarrow> w | Some r \<Rightarrow> w\<lparr>db := r, saved := None\<rparr>)"

definition Begin :: "backend \<Rightarrow> error option \<times> backend" where
  "Begin w =
     (case round_trip ReqBegin w of
        (Some e, w1) \<Rightarrow> (Some e, w1)
      | (None, w1) \<Rightarrow> (None, w1\<lparr>saved := Some (db w1)\<rparr>))"

definition Rollback :: "backend \<Rightarrow> error option \<times> backend" where
  "Rollback w = (case round_trip ReqRollback w of (err, w1) \<Rightarrow> (err, restore w1))"

definition Commit :: "backend \<Rightarrow> error option \<times> backend" where
  "Commit w =
     (case round_trip ReqCommit w of
        (Some e, w1) \<Rightarrow> (Some e, restore w1)
      | (None, w1) \<Rightarrow> (None, w1\<lparr>saved := None\<rparr>))"

definition BeginFunc ::
  "(backend \<Rightarrow> error option \<times> backend \<times> event list) \<Rightarrow> backend \<Rightarrow> error option \<times> backend \<times> event list" where
  "BeginFunc fn w =
     (case Begin w of
        (Some e, w1) \<Rightarrow> (Some e, w1, [])
      | (None, w1) \<Rightarrow>
          (case fn w1 of
             (Some fErr, w2, tr) \<Rightarrow> (Some fErr, snd (Rollback w2), tr)
           | (None, w2, tr) \<Rightarrow> (case Commit w2 of (err, w3) \<Rightarrow> (err, w3, tr))))"


section \<open>The persistent store: \<open>DBStorage\<close>\<close>

text \<open>
  \<open>models.Metrics\<close>, by the fields the store reads: \<open>Delta *int64\<close> and \<open>Value *float64\<close>
  are pointers, \<open>None\<close> is \<open>nil\<close>. A delta is an \<open>int\<close> here; the database rejects every
  value outside \<open>INTEGER\<close>, which lies well inside \<open>int64\<close>.
\<close>

record Metrics =
  ID :: string
  MType :: string
  Delta :: "int option"
  Value :: "float64 option"

text \<open>Modelled from the spec: \<open>models.NewMetricsForCounter\<close> and
  \<open>models.NewMetricsForGauge\<close> are not among the sources; a counter metric carries its
  name, the kind \<open>counter\<close> and the delta, a gauge metric its name, the kind \<open>gauge\<close> and
  the value.\<close>

definition NewMetricsForCounter :: "string \<Rightarrow> int \<Rightarrow> Metrics" where
  "NewMetricsForCounter name d = \<lparr>ID = name, MType = ''counter'', Delta = Some d, Value = None\<rparr>"

definition NewMetricsForGauge :: "string \<Rightarrow> float64 \<Rightarrow> Metrics" where
  "NewMetricsForGauge name v = \<lparr>ID = name, MType = ''gauge'', Delta = None, Value = Some v\<rparr>"

text \<open>
  The store's operations return their result, the backend they leave and the trace of
  their \<open>errorHanlder\<close> calls.
\<close>

definition createTables_fn :: "DBStorage \<Rightarrow> backend \<Rightarrow> error option \<times> backend \<times> event list" where
  "createTables_fn dbs w =
     (case errorHanlder dbs (QueryRow_Scan (ReqTableExist ''gauges'')
              (\<lambda>r. (Inr (table_exist ''gauges'' r), r))) (w, False) of
        (Some e, (w1, te), tr1) \<Rightarrow> (Some (Wrap ''get gauges table'' e), w1, tr1)
      | (None, (w1, te), tr1) \<Rightarrow>
          (case (if \<not> te then errorHanlder dbs (Exec ReqCreateGauges create_gauges) w1
                 else (None, w1, [])) of
             (Some e, w2, tr2) \<Rightarrow> (Some (Wrap ''create gauges table'' e), w2, tr1 @ tr2)
           | (None, w2, tr2) \<Rightarrow>
               (case errorHanlder dbs (QueryRow_Scan (ReqTableExist ''counters'')
                        (\<lambda>r. (Inr (table_exist ''counters'' r), r))) (w2, False) of
                  (Some e, (w3, te'), tr3) \<Rightarrow>
                    (Some (Wrap ''get counters table'' e), w3, tr1 @ tr2 @ tr3)
                | (None, (w3, te'), tr3) \<Rightarrow>
                    (case (if \<not> te' then errorHanlder dbs (Exec ReqCreateCounters create_counters) w3
                           else (None, w3, [])) of
                       (Some e, w4, tr4) \<Rightarrow>
                         (Some (Wrap ''create counters table'' e), w4, tr1 @ tr2 @ tr3 @ tr4)
                     | (None, w4, tr4) \<Rightarrow> (None, w4, tr1 @ tr2 @ tr3 @ tr4)))))"

definition createTables :: "DBStorage \<Rightarrow> backend \<Rightarrow> error option \<times> backend \<times> event list" where
  "createTables dbs w = BeginFunc (createTables_fn dbs) w"

text \<open>\<open>NewDBStorage\<close>: \<open>&DBStorage{conn: conn}\<close> leaves the three policy fields at Go's
  zero value.\<close>

definition NewDBStorage :: "backend \<Rightarrow> (error + DBStorage) \<times> backend \<times> event list" where
  "NewDBStorage w =
     (let dbs = \<lparr>retryCount = 0, duration = 0, durationPolicy = 0\<rparr>
      in case createTables dbs w of
           (Some e, w', tr) \<Rightarrow> (Inl (Wrap ''create tables in database'' e), w', tr)
         | (None, w', tr) \<Rightarrow> (Inr dbs, w', tr))"

definition updateCounterByMetrics ::
  "DBStorage \<Rightarrow> string \<Rightarrow> int option \<Rightarrow> backend \<Rightarrow> (error + Metrics) \<times> backend \<times> event list" where
  "updateCounterByMetrics dbs name delta w =
     (case delta of
        None \<Rightarrow> (Inl (ErrText ''delta is empty''), w, [])
      | Some d \<Rightarrow>
          (case errorHanlder dbs (QueryRow_Scan (ReqUpsertCounter name d) (upsert_counter name d))
                  (w, 0) of
             (Some e, (w', newDelta), tr) \<Rightarrow> (Inl (Wrap ''query execution'' e), w', tr)
           | (None, (w', newDelta), tr) \<Rightarrow> (Inr (NewMetricsForCounter name newDelta), w', tr)))"

definition updateGaugeByMetrics ::
  "DBStorage \<Rightarrow> string \<Rightarrow> float64 option \<Rightarrow> backend \<Rightarrow> (error + Metrics) \<times> backend \<times> event list" where
  "updateGaugeByMetrics dbs name val w =
     (case val of
        None \<Rightarrow> (Inl (ErrText ''value is empty''), w, [])
      | Some v \<Rightarrow>
          (case errorHanlder dbs (QueryRow_Scan (ReqUpsertGauge name v) (upsert_gauge name v))
                  (w, 0) of
             (Some e, (w', newValue), tr) \<Rightarrow> (Inl (Wrap ''query execution'' e), w', tr)
           | (None, (w', newValue), tr) \<Rightarrow> (Inr (NewMetricsForGauge name newValue), w', tr)))"

definition UpdateByMetrics ::
  "DBStorage \<Rightarrow> Metrics \<Rightarrow> backend \<Rightarrow> (error + Metrics) \<times> backend \<times> event list" where
  "UpdateByMetrics dbs m w =
     (if MType m = ''counter'' then updateCounterByMetrics dbs (ID m) (Delta m) w
      else if MType m = ''gauge'' then updateGaugeByMetrics dbs (ID m) (Value m) w
      else (Inl (ErrText (''unknown type '' @ MType m)), w, []))"

definition valueCounterByMetrics ::
  "DBStorage \<Rightarrow> string \<Rightarrow> backend \<Rightarrow> (error + Metrics) \<times> backend \<times> event list" where
  "valueCounterByMetrics dbs name w =
     (case errorHanlder dbs (QueryRow_Scan (ReqSelectCounter name) (select_counter name)) (w, 0) of
        (Some e, (w', c), tr) \<Rightarrow> (Inl (Wrap (''get counter '' @ name) e), w', tr)
      | (None, (w', c), tr) \<Rightarrow> (Inr (NewMetricsForCounter name c), w', tr))"

definition valueGaugeByMetrics ::
  "DBStorage \<Rightarrow> string \<Rightarrow> backend \<Rightarrow> (error + Metrics) \<times> backend \<times> event list" where
  "valueGaugeByMetrics dbs name w =
     (case errorHanlder dbs (QueryRow_Scan (ReqSelectGauge name) (select_gauge name)) (w, 0) of
        (Some e, (w', g), tr) \<Rightarrow> (Inl (Wrap (''get gauge '' @ name) e), w', tr)
      | (None, (w', g), tr) \<Rightarrow> (Inr (NewMetricsForGauge name g), w', tr))"

definition ValueByMetrics ::
  "DBStorage \<Rightarrow> Metrics \<Rightarrow> backend \<Rightarrow> (error + Metrics) \<times> backend \<times> event list" where
  "ValueByMetrics dbs m w =
     (if MType m = ''counter'' then valueCounterByMetrics dbs (ID m) w
      else if MType m = ''gauge'' then valueGaugeByMetrics dbs (ID m) w
      else (Inl (ErrText (''unknown type '' @ MType m)), w, []))"

text \<open>
  \<open>Updates\<close>. The loop over \<open>metrics\<close> dereferences \<open>val.Value\<close> and \<open>val.Delta\<close> as it
  queues; on a nil pointer the Go runtime panics, which is \<open>None\<close> here. A metric of any
  other kind is passed over.
\<close>

fun queue_metrics :: "Metrics list \<Rightarrow> queued list \<Rightarrow> queued list option" where
  "queue_metrics [] batch = Some batch"
| "queue_metrics (val # rest) batch =
     (if MType val = ''gauge'' then
        (case Value val of
           None \<Rightarrow> None
         | Some v \<Rightarrow> queue_metrics rest (batch @ [QGauge (ID val) v]))
      else if MType val = ''counter'' then
        (case Delta val of
           None \<Rightarrow> None
         | Some d \<Rightarrow> queue_metrics rest (batch @ [QCounter (ID val) d]))
      else queue_metrics rest batch)"

datatype 'a outcome = Panics | Returns 'a

definition Updates ::
  "DBStorage \<Rightarrow> Metrics list \<Rightarrow> backend \<Rightarrow> error option outcome \<times> backend \<times> event list" where
  "Updates dbs metrics w =
     (case queue_metrics metrics [] of
        None \<Rightarrow> (Panics, w, [])
      | Some batch \<Rightarrow>
          (case BeginFunc (errorHanlder dbs (SendBatch_Close batch)) w of
             (Some e, w', tr) \<Rightarrow> (Returns (Some (Wrap ''send batch'' e)), w', tr)
           | (None, w', tr) \<Rightarrow> (Returns None, w', tr)))"

text \<open>A run of single updates, one after the other, with the result of each.\<close>

fun update_each :: "DBStorage \<Rightarrow> Metrics list \<Rightarrow> backend \<Rightarrow> (error + Metrics) list \<times> backend" where
  "update_each dbs [] w = ([], w)"
| "update_each dbs (m # ms) w =
     (case UpdateByMetrics dbs m w of
        (res, w', tr) \<Rightarrow> (case update_each dbs ms w' of (rs, w'') \<Rightarrow> (res # rs, w'')))"

text \<open>A backend that answers every round trip (its schedule holds no fault), and the
  stored value of a name.\<close>

definition healthy :: "backend \<Rightarrow> bool" where
  "healthy w = (\<forall>f \<in> set (faults w). f = None)"

definition stored_counter :: "backend \<Rightarrow> string \<Rightarrow> int option" where
  "stored_counter w name = (case counters (db w) of None \<Rightarrow> None | Some rel \<Rightarrow> rel name)"

definition stored_gauge :: "backend \<Rightarrow> string \<Rightarrow> float64 option" where
  "stored_gauge w name = (case gauges (db w) of None \<Rightarrow> None | Some rel \<Rightarrow> rel name)"


text \<open>A connection with nothing sent yet and no open transaction, over given relations
  and with a given schedule; a database without the two relations, and one with both, empty.\<close>

definition backend_of :: "relations \<Rightarrow> error option list \<Rightarrow> backend" where
  "backend_of r fs = \<lparr>db = r, saved = None, faults = fs, issued = []\<rparr>"

definition no_relations :: relations where
  "no_relations = \<lparr>gauges = None, counters = None\<rparr>"

definition empty_relations :: relations where
  "empty_relations = \<lparr>gauges = Some Map.empty, counters = Some Map.empty\<rparr>"

text \<open>The requests sent between two states of the connection, and the entries of the
  schedule those round trips took.\<close>

definition requests :: "backend \<Rightarrow> backend \<Rightarrow> request list" where
  "requests w w' = drop (length (issued w)) (issued w')"

definition consumed :: "backend \<Rightarrow> backend \<Rightarrow> error option list" where
  "consumed w w' = take (length (issued w') - length (issued w)) (faults w)"

text \<open>The entry of a schedule that the \<open>k\<close>-th round trip from now takes, and the
  connection after one round trip.\<close>

definition fault_at :: "error option list \<Rightarrow> nat \<Rightarrow> error option" where
  "fault_at fs k = (if k < length fs then fs ! k else None)"

definition advance :: "request \<Rightarrow> backend \<Rightarrow> backend" where
  "advance rq w = w\<lparr>faults := drop 1 (faults w), issued := issued w @ [rq]\<rparr>"

text \<open>A metric whose kind is known and whose value pointer for that kind is nil.\<close>

definition nil_value :: "Metrics \<Rightarrow> bool" where
  "nil_value m =
     ((MType m = ''gauge'' \<and> Value m = None) \<or> (MType m = ''counter'' \<and> Delta m = None))"

text \<open>A trace with at most one call of the wrapped function and no sleep.\<close>

definition quiet :: "event list \<Rightarrow> bool" where
  "quiet t = (invocations t \<le> 1 \<and> slept t = [])"

text \<open>The store that \<open>NewDBStorage\<close> builds.\<close>

abbreviation dbs0 :: DBStorage where
  "dbs0 \<equiv> \<lparr>retryCount = 0, duration = 0, durationPolicy = 0\<rparr>"

text \<open>
  The running totals of a counter that holds \<open>s\<close> and receives the deltas in order, and
  whether every delta and every running total fits \<open>INTEGER\<close>.
\<close>

fun running :: "int \<Rightarrow> int list \<Rightarrow> int list" where
  "running s [] = []"
| "running s (d # ds) = (s + d) # running (s + d) ds"

fun within_int4 :: "int \<Rightarrow> int list \<Rightarrow> bool" where
  "within_int4 s [] = True"
| "within_int4 s (d # ds) = (int4 d \<and> int4 (s + d) \<and> within_int4 (s + d) ds)"


text \<open>The metrics a caller passes to read a counter and a gauge by name.\<close>

definition counter_named :: "string \<Rightarrow> Metrics" where
  "counter_named name = \<lparr>ID = name, MType = ''counter'', Delta = None, Value = None\<rparr>"


section \<open>The reporting agent\<close>

text \<open>
  \<open>Agent\<close>: the two intervals (\<open>uint\<close>), the sample counter (\<open>atomic.Int64\<close>) and the last
  \<open>runtime.MemStats\<close> read, of a type \<open>'ms\<close> left open. The client is the transport; the
  calls the agent makes on it are recorded in order.
\<close>

record 'ms Agent =
  reportInterval :: nat
  pollInterval :: nat
  pollCount :: "64 word"
  ms :: 'ms

text \<open>\<open>client.SendBatch(ctx, msForServer)\<close> with its \<open>map[string]float64\<close>, kept as an
  association list, and \<open>client.SendCounter(ctx, name, value)\<close>.\<close>

datatype call = SendBatch "(string \<times> float64) list" | SendCounter string "64 word"

datatype log_entry = Info string | Warn string error

datatype task = Running | Returned "error option"

text \<open>The agent at work: its fields, what it has sent and logged, and the state of the
  two goroutines of \<open>Run\<close>.\<close>

record 'ms run =
  agent :: "'ms Agent"
  sent :: "call list"
  logged :: "log_entry list"
  reporter :: task
  sampler :: task

definition NewAgent :: "nat \<Rightarrow> nat \<Rightarrow> 'ms \<Rightarrow> 'ms Agent" where
  "NewAgent ri pi m0 = \<lparr>reportInterval = ri, pollInterval = pi, pollCount = 0, ms = m0\<rparr>"

text \<open>
  \<open>sendReport\<close>. \<open>GetMemStatsForServer\<close> is not among the sources and is a parameter; \<open>r\<close>
  is what \<open>rand.Float64()\<close> returns, \<open>o1\<close> and \<open>o2\<close> what \<open>SendBatch\<close> and \<open>SendCounter\<close>
  return.
\<close>

definition sendReport ::
  "('ms \<Rightarrow> (string \<times> float64) list) \<Rightarrow> float64 \<Rightarrow> error option \<Rightarrow> error option \<Rightarrow> 'ms run \<Rightarrow> 'ms run" where
  "sendReport GetMemStatsForServer r o1 o2 s =
     (let msForServer = AList.update ''RandomValue'' r (GetMemStatsForServer (ms (agent s)));
          s1 = s\<lparr>sent := sent s @ [SendBatch msForServer]\<rparr>;
          s2 = (case o1 of
                  None \<Rightarrow> s1
                | Some e \<Rightarrow> s1\<lparr>logged := logged s1 @ [Warn ''Push memstats'' e]\<rparr>);
          s3 = s2\<lparr>sent := sent s2 @ [SendCounter ''PollCount'' (pollCount (agent s2))]\<rparr>
      in case o2 of
           None \<Rightarrow> s3
         | Some e \<Rightarrow> s3\<lparr>logged := logged s3 @ [Warn ''Error on sending poll count'' e]\<rparr>)"

text \<open>
  What the two goroutines of \<open>Run\<close> wait for: the reporter's timer (with the values the
  environment gives that tick), the sampler's timer (with the statistics
  \<open>runtime.ReadMemStats\<close> reads), or the termination signal that cancels \<open>ctx\<close> and with it
  \<open>egCtx\<close>.
\<close>

datatype 'ms tick = ReportTick float64 "error option" "error option" | PollTick 'ms | Signal

fun step :: "('ms \<Rightarrow> (string \<times> float64) list) \<Rightarrow> 'ms run \<Rightarrow> 'ms tick \<Rightarrow> 'ms run" where
  "step G s (ReportTick r o1 o2) = (if reporter s = Running then sendReport G r o1 o2 s else s)"
| "step G s (PollTick m) =
     (if sampler s = Running
      then s\<lparr>agent := (agent s)\<lparr>ms := m, pollCount := pollCount (agent s) + 1\<rparr>\<rparr>
      else s)"
| "step G s Signal =
     (let s1 = (if reporter s = Running
                then s\<lparr>reporter := Returned None, logged := logged s @ [Info ''Send report done'']\<rparr>
                else s)
      in if sampler s1 = Running
         then s1\<lparr>sampler := Returned None, logged := logged s1 @ [Info ''Read mem stats done'']\<rparr>
         else s1)"

definition start :: "'ms Agent \<Rightarrow> 'ms run" where
  "start a =
     \<lparr>agent = a, sent = [],
      logged = [Info ''Send report start'', Info ''Read mem stats start''],
      reporter = Running, sampler = Running\<rparr>"

definition run_ticks :: "('ms \<Rightarrow> (string \<times> float64) list) \<Rightarrow> 'ms Agent \<Rightarrow> 'ms tick list \<Rightarrow> 'ms run" where
  "run_ticks G a ticks = foldl (step G) (start a) ticks"

text \<open>
  \<open>eg.Wait()\<close> and the end of \<open>Run\<close>: \<open>None\<close> while a goroutine is still running, otherwise
  what \<open>Run\<close> returns, the first error of a goroutine wrapped, or nil.
\<close>

definition Run_result :: "'ms run \<Rightarrow> error option option" where
  "Run_result s =
     (case (reporter s, sampler s) of
        (Returned e1, Returned e2) \<Rightarrow>
          (case e1 of
             Some e \<Rightarrow> Some (Some (Wrap ''problem with working agent'' e))
           | None \<Rightarrow>
               (case e2 of
                  Some e \<Rightarrow> Some (Some (Wrap ''problem with working agent'' e))
                | None \<Rightarrow> Some None))
      | _ \<Rightarrow> None)"

text \<open>Modelled from the spec: the client is not among the sources; a batch push carries
  one Gauge metric for each entry of the map it is given, a counter push one Counter
  metric.\<close>

fun carried :: "call \<Rightarrow> Metrics list" where
  "carried (SendBatch m) = map (\<lambda>(name, v). NewMetricsForGauge name v) m"
| "carried (SendCounter name c) = [NewMetricsForCounter name (sint c)]"

text \<open>The pushes of one reporter tick as the specification describes them: a single
  batch that holds the \<open>RandomValue\<close> gauge and the counter \<open>name\<close> with the value \<open>c\<close>.\<close>

definition one_batch_with_counter :: "call list \<Rightarrow> string \<Rightarrow> int \<Rightarrow> bool" where
  "one_batch_with_counter calls name c =
     (case calls of
        [b] \<Rightarrow>
          list_ex (\<lambda>m. MType m = ''gauge'' \<and> ID m = ''RandomValue'') (carried b) \<and>
          filter (\<lambda>m. MType m = ''counter'') (carried b) = [NewMetricsForCounter name c]
      | _ \<Rightarrow> False)"


text \<open>The reporter ticks and the sampler ticks in a schedule.\<close>

fun is_report :: "'ms tick \<Rightarrow> bool" where
  "is_report (ReportTick r o1 o2) = True"
| "is_report t = False"

fun is_poll :: "'ms tick \<Rightarrow> bool" where
  "is_poll (PollTick m) = True"
| "is_poll t = False"

section \<open>Properties of the resilience layer\<close>

lemma attempt_Suc_front: "attempt h (Suc k) r = attempt h k (h (snd r))"
  by (induction k) simp_all

lemma backoff_shift:
  "concat (map (\<lambda>j. [Sleep (d + int j * p), Invoke]) [0..<Suc k]) =
     [Sleep d, Invoke] @ concat (map (\<lambda>j. [Sleep ((d + p) + int j * p), Invoke]) [0..<k])"
proof -
  have "[0..<Suc k] = 0 # map Suc [0..<k]"
    by (simp add: upt_conv_Cons map_Suc_upt del: upt_Suc)
  then show ?thesis
    by (simp add: comp_def algebra_simps del: upt_Suc)
qed

lemma retry_loop_spec:
  "transient err \<Longrightarrow>
   retry_loop dbs h i d err w tr =
     (let k = retries_from h (nat (retryCount dbs - i)) (err, w); r = attempt h k (err, w)
      in (fst r, snd r,
          tr @ concat (map (\<lambda>j. [Sleep (d + int j * durationPolicy dbs), Invoke]) [0..<k])))"
proof (induction dbs h i d err w tr rule: retry_loop.induct)
  case (1 dbs h i d err w tr)
  show ?case
  proof (cases "i < retryCount dbs")
    case False
    then show ?thesis by (simp add: retry_loop.simps [of dbs h i])
  next
    case True
    define n where "n = nat (retryCount dbs - (i + 1))"
    have n: "nat (retryCount dbs - i) = Suc n" "nat (retryCount dbs - (i + 1)) = n"
      using True by (simp_all add: n_def)
    obtain err' w' where h: "h w = (err', w')" by (cases "h w")
    show ?thesis
    proof (cases "transient err'")
      case False
      have r0: "retries_from h (Suc n) (err, w) = Suc 0"
        using "1.prems" False h by (cases n) simp_all
      show ?thesis
        using True False h n(1)
        by (simp add: retry_loop.simps [of dbs h i] r0 del: retries_from.simps)
    next
      case t: True
      have IH: "retry_loop dbs h (i + 1) (d + durationPolicy dbs) err' w' (tr @ [Sleep d, Invoke]) =
        (let k = retries_from h n (err', w'); r = attempt h k (err', w')
         in (fst r, snd r, (tr @ [Sleep d, Invoke]) @
           concat (map (\<lambda>j. [Sleep ((d + durationPolicy dbs) + int j * durationPolicy dbs), Invoke]) [0..<k])))"
        using "1.IH" [OF True h [symmetric] _ t] t n by simp
      have r: "retries_from h (Suc n) (err, w) = Suc (retries_from h n (err', w'))"
        using "1.prems" h by simp
      show ?thesis
        using True t h n(1)
        by (simp add: retry_loop.simps [of dbs h i] IH r attempt_Suc_front backoff_shift Let_def
              del: upt_Suc attempt.simps retries_from.simps)
    qed
  qed
qed


lemma errorHanlder_refines_policy: "errorHanlder dbs h w = policy_spec dbs h w"
proof -
  obtain err w1 where h: "h w = (err, w1)" by (cases "h w")
  show ?thesis
  proof (cases "transient err \<and> 0 < retryCount dbs")
    case True
    then obtain e where "err = Some e" by (cases err) (auto simp: transient_def)
    with True h show ?thesis
      by (simp add: errorHanlder_def policy_spec_def retries_def policy_trace_def
            retry_loop_spec Let_def del: retries_from.simps)
  next
    case False
    have "retries_from h (nat (retryCount dbs)) (err, w1) = 0"
      using False by (cases "nat (retryCount dbs)") auto
    with False h show ?thesis
      by (auto simp: errorHanlder_def policy_spec_def retries_def policy_trace_def Let_def)
  qed
qed

lemma invocations_policy_trace: "invocations (policy_trace dbs k) = Suc k"
  by (induction k) (simp_all add: invocations_def policy_trace_def)

lemma slept_append: "slept (xs @ ys) = slept xs @ slept ys"
  by (induction xs rule: slept.induct) simp_all

lemma slept_policy_trace:
  "slept (policy_trace dbs k) = map (\<lambda>j. duration dbs + int j * durationPolicy dbs) [0..<k]"
  by (induction k) (simp_all add: policy_trace_def slept_append)

lemma retries_from_le: "retries_from h n r \<le> n"
  by (induction n arbitrary: r) simp_all

lemma retries_from_transient:
  "j < retries_from h n r \<Longrightarrow> transient (fst (attempt h j r))"
proof (induction n arbitrary: r j)
  case 0
  then show ?case by simp
next
  case (Suc n)
  then have t: "transient (fst r)" by (simp split: if_splits)
  show ?case
  proof (cases j)
    case 0
    with t show ?thesis by simp
  next
    case (Suc j')
    with Suc.prems t have "j' < retries_from h n (h (snd r))" by simp
    from Suc.IH [OF this] Suc show ?thesis
      by (simp add: attempt_Suc_front del: attempt.simps)
  qed
qed

lemma retries_from_stop:
  "retries_from h n r < n \<Longrightarrow> \<not> transient (fst (attempt h (retries_from h n r) r))"
proof (induction n arbitrary: r)
  case 0
  then show ?case by simp
next
  case (Suc n)
  show ?case
  proof (cases "transient (fst r)")
    case False
    then show ?thesis by simp
  next
    case True
    with Suc.prems have "retries_from h n (h (snd r)) < n" by simp
    from Suc.IH [OF this] True show ?thesis
      by (simp add: attempt_Suc_front del: attempt.simps)
  qed
qed


lemma retry_example_success:
  "errorHanlder \<lparr>retryCount = 3, duration = 1, durationPolicy = 1\<rparr> scripted
     [Some (PgError ''08006''), Some (PgError ''08006''), Some (PgError ''08006'')] =
   (None, [], [Invoke, Sleep 1, Invoke, Sleep 2, Invoke, Sleep 3, Invoke])"
  by (simp add: errorHanlder_def retry_loop.simps scripted_def transient_def
        IsConnectionException_def)

lemma retry_example_permanent:
  "errorHanlder \<lparr>retryCount = 3, duration = 1, durationPolicy = 1\<rparr> scripted
     [Some (PgError ''23505''), None] =
   (Some (PgError ''23505''), [None], [Invoke])"
  by (simp add: errorHanlder_def scripted_def transient_def IsConnectionException_def)

text \<open>
  C2. \<open>errorHanlder\<close> is the retry policy of the specification (\<open>policy_spec\<close>). It calls
  the wrapped operation once and returns at once, with no sleep, when the call succeeds or
  fails with an error that is not a transient connectivity error (or when \<open>retryCount\<close> is
  not positive). After a transient failure with \<open>retryCount > 0\<close> it retries: it sleeps the
  initial delay before the first retry and one increment more before each further one, it
  goes on only while the last attempt failed transiently, it retries at most \<open>retryCount\<close>
  times, and it returns the error of the last attempt. With \<open>retryCount = 3\<close>, initial delay
  1 and increment 1, an operation that fails transiently three times and then succeeds is
  called 4 times with sleeps 1, 2, 3; one that fails with a permanent error at once is
  called once, with no sleep.
\<close>

theorem errorHanlder_retry_policy:
  "errorHanlder dbs h w = policy_spec dbs h w \<and>
   (\<not> transient (fst (h w)) \<or> retryCount dbs \<le> 0 \<longrightarrow>
      errorHanlder dbs h w = (fst (h w), snd (h w), [Invoke])) \<and>
   (transient (fst (h w)) \<and> 0 < retryCount dbs \<longrightarrow> 0 < retries dbs h w) \<and>
   retries dbs h w \<le> nat (retryCount dbs) \<and>
   (\<forall>j < retries dbs h w. transient (fst (attempt h j (h w)))) \<and>
   (retries dbs h w < nat (retryCount dbs) \<longrightarrow>
      \<not> transient (fst (attempt h (retries dbs h w) (h w)))) \<and>
   (case errorHanlder dbs h w of
      (err, w', tr) \<Rightarrow>
        (err, w') = attempt h (retries dbs h w) (h w) \<and>
        invocations tr = Suc (retries dbs h w) \<and>
        slept tr = map (\<lambda>j. duration dbs + int j * durationPolicy dbs) [0..<retries dbs h w]) \<and>
   (case errorHanlder \<lparr>retryCount = 3, duration = 1, durationPolicy = 1\<rparr> scripted
           [Some (PgError ''08006''), Some (PgError ''08006''), Some (PgError ''08006'')] of
      (err, w', tr) \<Rightarrow>
        err = None \<and> invocations tr = 4 \<and> slept tr = [1, 2, 3] \<and> sum_list (slept tr) = 1 + 2 + 3) \<and>
   errorHanlder \<lparr>retryCount = 3, duration = 1, durationPolicy = 1\<rparr> scripted
     [Some (PgError ''23505''), None] = (Some (PgError ''23505''), [None], [Invoke])"
proof -
  have spec: "errorHanlder dbs h w = policy_spec dbs h w"
    by (rule errorHanlder_refines_policy)
  have once: "\<not> transient (fst (h w)) \<or> retryCount dbs \<le> 0 \<longrightarrow>
      errorHanlder dbs h w = (fst (h w), snd (h w), [Invoke])"
    by (cases "h w") (auto simp: errorHanlder_def transient_def)
  have some: "transient (fst (h w)) \<and> 0 < retryCount dbs \<longrightarrow> 0 < retries dbs h w"
    by (cases "nat (retryCount dbs)") (auto simp: retries_def)
  have le: "retries dbs h w \<le> nat (retryCount dbs)"
    by (simp add: retries_def retries_from_le)
  have before: "\<forall>j < retries dbs h w. transient (fst (attempt h j (h w)))"
    by (simp add: retries_def retries_from_transient del: attempt.simps)
  have stop: "retries dbs h w < nat (retryCount dbs) \<longrightarrow>
      \<not> transient (fst (attempt h (retries dbs h w) (h w)))"
    using retries_from_stop [of h "nat (retryCount dbs)" "h w"] by (simp add: retries_def)
  have result: "case errorHanlder dbs h w of
      (err, w', tr) \<Rightarrow>
        (err, w') = attempt h (retries dbs h w) (h w) \<and>
        invocations tr = Suc (retries dbs h w) \<and>
        slept tr = map (\<lambda>j. duration dbs + int j * durationPolicy dbs) [0..<retries dbs h w]"
    by (simp add: spec policy_spec_def Let_def invocations_policy_trace slept_policy_trace
          del: attempt.simps)
  have ex1: "case errorHanlder \<lparr>retryCount = 3, duration = 1, durationPolicy = 1\<rparr> scripted
           [Some (PgError ''08006''), Some (PgError ''08006''), Some (PgError ''08006'')] of
      (err, w', tr) \<Rightarrow>
        err = None \<and> invocations tr = 4 \<and> slept tr = [1, 2, 3] \<and> sum_list (slept tr) = 1 + 2 + 3"
    by (simp add: retry_example_success invocations_def)
  from spec once some le before stop result ex1 retry_example_permanent show ?thesis
    by blast
qed

text \<open>The hypotheses of C2 at an operation that keeps failing transiently, with
  \<open>retryCount = 2\<close>, delay 5 and increment 10: two retries, sleeps 5 and 15, and the error of
  the third call returned.\<close>

theorem errorHanlder_retry_policy_witness:
  "transient (fst (scripted [Some (PgError ''08006''), Some (PgError ''08001''),
       Some (PgError ''08003''), Some (PgError ''08004'')])) \<and>
   0 < retryCount \<lparr>retryCount = 2, duration = 5, durationPolicy = 10\<rparr> \<and>
   retries \<lparr>retryCount = 2, duration = 5, durationPolicy = 10\<rparr> scripted
     [Some (PgError ''08006''), Some (PgError ''08001''), Some (PgError ''08003''),
      Some (PgError ''08004'')] = 2 \<and>
   errorHanlder \<lparr>retryCount = 2, duration = 5, durationPolicy = 10\<rparr> scripted
     [Some (PgError ''08006''), Some (PgError ''08001''), Some (PgError ''08003''),
      Some (PgError ''08004'')] =
   (Some (PgError ''08003''), [Some (PgError ''08004'')],
    [Invoke, Sleep 5, Invoke, Sleep 15, Invoke])"
  using errorHanlder_retry_policy [of "\<lparr>retryCount = 2, duration = 5, durationPolicy = 10\<rparr>"
      scripted "[Some (PgError ''08006''), Some (PgError ''08001''), Some (PgError ''08003''),
      Some (PgError ''08004'')]"]
  by (simp add: policy_spec_def policy_trace_def retries_def scripted_def transient_def
        IsConnectionException_def eval_nat_numeral Let_def)


section \<open>Properties of the persistent store\<close>

lemma errorHanlder_once:
  "retryCount dbs \<le> 0 \<Longrightarrow>
   errorHanlder dbs h w = (case h w of (err, w') \<Rightarrow> (err, w', [Invoke]))"
  by (cases "h w") (auto simp: errorHanlder_def)

lemma round_trip_advance: "round_trip rq w = (fault_at (faults w) 0, advance rq w)"
  by (cases "faults w") (simp_all add: round_trip_def fault_at_def advance_def)

lemma advance_fields [simp]:
  "faults (advance rq w) = drop 1 (faults w)"
  "issued (advance rq w) = issued w @ [rq]"
  "db (advance rq w) = db w"
  "saved (advance rq w) = saved w"
  by (simp_all add: advance_def)

lemma fault_at_drop [simp]: "fault_at (drop j fs) k = fault_at fs (j + k)"
  by (auto simp: fault_at_def)

lemma healthy_fault_at: "healthy w \<Longrightarrow> fault_at (faults w) k = None"
  by (auto simp: healthy_def fault_at_def)

lemma healthy_advance [simp]: "healthy w \<Longrightarrow> healthy (advance rq w)"
  by (auto simp: healthy_def dest: in_set_dropD)

lemma healthy_update [simp]:
  "healthy (w\<lparr>db := r\<rparr>) = healthy w" "healthy (w\<lparr>saved := x\<rparr>) = healthy w"
  by (simp_all add: healthy_def)

lemma restore_fields [simp]:
  "faults (restore w) = faults w" "issued (restore w) = issued w" "saved (restore w) = None"
  "db (restore w) = (case saved w of None \<Rightarrow> db w | Some r \<Rightarrow> r)"
  by (simp_all add: restore_def split: option.splits)

lemma QueryRow_Scan_step:
  "QueryRow_Scan rq stmt (w, d) =
     (case fault_at (faults w) 0 of
        Some e \<Rightarrow> (Some e, advance rq w, d)
      | None \<Rightarrow>
          (case stmt (db w) of
             (Inl e, r) \<Rightarrow> (Some e, (advance rq w)\<lparr>db := r\<rparr>, d)
           | (Inr v, r) \<Rightarrow> (None, (advance rq w)\<lparr>db := r\<rparr>, v)))"
  by (simp add: QueryRow_Scan_def round_trip_advance split: option.splits)

lemma Exec_step:
  "Exec rq stmt w =
     (case fault_at (faults w) 0 of
        Some e \<Rightarrow> (Some e, advance rq w)
      | None \<Rightarrow> (case stmt (db w) of (err, r) \<Rightarrow> (err, (advance rq w)\<lparr>db := r\<rparr>)))"
  by (simp add: Exec_def round_trip_advance split: option.splits)

lemmas conn_defs = QueryRow_Scan_step Exec_step Begin_def Commit_def Rollback_def
  round_trip_advance BeginFunc_def

lemma createTables_consumed:
  "createTables dbs0 w = (None, w', tr) \<Longrightarrow> \<forall>j < length (issued w') - length (issued w). fault_at (faults w) j = None"
  unfolding createTables_def createTables_fn_def
  apply (simp add: errorHanlder_once conn_defs  create_gauges_def create_counters_def table_exist_def
     split: option.splits  if_splits)
  apply (auto simp: less_Suc_eq eval_nat_numeral)
  done


lemma createTables_creates_only_absent:
  "createTables dbs0 w = (err, w', tr) \<Longrightarrow>
     (ReqCreateGauges \<in> set (requests w w') \<longrightarrow> gauges (db w) = None) \<and>
     (ReqCreateCounters \<in> set (requests w w') \<longrightarrow> counters (db w) = None) \<and>
     slept tr = [] \<and> invocations tr \<le> 4"
  unfolding createTables_def createTables_fn_def
  apply (simp add: errorHanlder_once conn_defs create_gauges_def create_counters_def table_exist_def
     requests_def invocations_def
     split: option.splits if_splits)
  apply auto
  done

lemma createTables_healthy:
  "healthy w \<Longrightarrow> createTables dbs0 w = (err, w', tr) \<Longrightarrow>
     err = None \<and> healthy w' \<and> saved w' = None \<and>
     gauges (db w') = Some (case gauges (db w) of None \<Rightarrow> Map.empty | Some rel \<Rightarrow> rel) \<and>
     counters (db w') = Some (case counters (db w) of None \<Rightarrow> Map.empty | Some rel \<Rightarrow> rel) \<and>
     requests w w' =
       [ReqBegin, ReqTableExist ''gauges''] @
       (if gauges (db w) = None then [ReqCreateGauges] else []) @
       [ReqTableExist ''counters''] @
       (if counters (db w) = None then [ReqCreateCounters] else []) @
       [ReqCommit]"
  unfolding createTables_def createTables_fn_def
  apply (simp add: errorHanlder_once conn_defs create_gauges_def create_counters_def table_exist_def
     requests_def healthy_fault_at
     split: option.splits if_splits)
  apply auto
  done

lemma take_all_None: "(\<forall>f \<in> set (take k fs). f = None) \<longleftrightarrow> (\<forall>j < k. fault_at fs j = None)"
proof
  assume h: "\<forall>f \<in> set (take k fs). f = None"
  show "\<forall>j < k. fault_at fs j = None"
  proof (intro allI impI)
    fix j assume "j < k"
    show "fault_at fs j = None"
    proof (cases "j < length fs")
      case True
      with \<open>j < k\<close> have "take k fs ! j \<in> set (take k fs)" by (intro nth_mem) simp
      with h True \<open>j < k\<close> show ?thesis by (simp add: fault_at_def)
    next
      case False
      then show ?thesis by (simp add: fault_at_def)
    qed
  qed
next
  assume h: "\<forall>j < k. fault_at fs j = None"
  show "\<forall>f \<in> set (take k fs). f = None"
  proof
    fix f assume "f \<in> set (take k fs)"
    then obtain j where "j < length (take k fs)" "take k fs ! j = f"
      by (auto simp: in_set_conv_nth)
    with h [rule_format, of j] show "f = None" by (simp add: fault_at_def)
  qed
qed

text \<open>
  C9. \<open>NewDBStorage\<close> ensures both relations exist, checking before it creates. A create
  statement is sent only for a relation that was absent. If any round trip of the
  construction fails (the begin, an existence check, a creation, the commit), the
  construction fails with an error. Against a backend that answers every round trip the
  construction succeeds, both relations exist afterwards, a relation that existed keeps
  its rows, and the requests are: begin, the check for \<open>gauges\<close>, its creation only if it
  was absent, the check for \<open>counters\<close>, its creation only if it was absent, commit; so a
  second construction sends the two checks and no create statement.
\<close>

theorem NewDBStorage_ensures_relations:
  "case NewDBStorage w of
     (res, w', tr) \<Rightarrow>
       (ReqCreateGauges \<in> set (requests w w') \<longrightarrow> gauges (db w) = None) \<and>
       (ReqCreateCounters \<in> set (requests w w') \<longrightarrow> counters (db w) = None) \<and>
       ((\<exists>f \<in> set (consumed w w'). f \<noteq> None) \<longrightarrow>
          (\<exists>e. res = Inl (Wrap ''create tables in database'' e))) \<and>
       (healthy w \<longrightarrow>
          res = Inr \<lparr>retryCount = 0, duration = 0, durationPolicy = 0\<rparr> \<and> healthy w' \<and>
          saved w' = None \<and>
          gauges (db w') = Some (case gauges (db w) of None \<Rightarrow> Map.empty | Some rel \<Rightarrow> rel) \<and>
          counters (db w') = Some (case counters (db w) of None \<Rightarrow> Map.empty | Some rel \<Rightarrow> rel) \<and>
          requests w w' =
            [ReqBegin, ReqTableExist ''gauges''] @
            (if gauges (db w) = None then [ReqCreateGauges] else []) @
            [ReqTableExist ''counters''] @
            (if counters (db w) = None then [ReqCreateCounters] else []) @
            [ReqCommit])"
proof -
  obtain err w' tr where ct: "createTables dbs0 w = (err, w', tr)"
    by (cases "createTables dbs0 w")
  define res where
    "res = (case err of Some e \<Rightarrow> Inl (Wrap ''create tables in database'' e) | None \<Rightarrow> Inr dbs0)"
  have new: "NewDBStorage w = (res, w', tr)"
    using ct by (simp add: NewDBStorage_def res_def split: option.splits)
  have g: "ReqCreateGauges \<in> set (requests w w') \<longrightarrow> gauges (db w) = None"
    and c: "ReqCreateCounters \<in> set (requests w w') \<longrightarrow> counters (db w) = None"
    using createTables_creates_only_absent [OF ct] by simp_all
  have fails: "(\<exists>f \<in> set (consumed w w'). f \<noteq> None) \<longrightarrow>
      (\<exists>e. res = Inl (Wrap ''create tables in database'' e))"
  proof
    assume bad: "\<exists>f \<in> set (consumed w w'). f \<noteq> None"
    have "err \<noteq> None"
    proof
      assume "err = None"
      with ct have "\<forall>j < length (issued w') - length (issued w). fault_at (faults w) j = None"
        by (intro createTables_consumed [of w w' tr]) simp
      then have "\<forall>f \<in> set (consumed w w'). f = None"
        by (simp add: consumed_def take_all_None)
      with bad show False by blast
    qed
    then show "\<exists>e. res = Inl (Wrap ''create tables in database'' e)"
      by (cases err) (simp_all add: res_def)
  qed
  have ok: "healthy w \<longrightarrow>
     res = Inr dbs0 \<and> healthy w' \<and> saved w' = None \<and>
     gauges (db w') = Some (case gauges (db w) of None \<Rightarrow> Map.empty | Some rel \<Rightarrow> rel) \<and>
     counters (db w') = Some (case counters (db w) of None \<Rightarrow> Map.empty | Some rel \<Rightarrow> rel) \<and>
     requests w w' =
       [ReqBegin, ReqTableExist ''gauges''] @
       (if gauges (db w) = None then [ReqCreateGauges] else []) @
       [ReqTableExist ''counters''] @
       (if counters (db w) = None then [ReqCreateCounters] else []) @
       [ReqCommit]"
  proof
    assume h: "healthy w"
    from createTables_healthy [OF h ct] have e: "err = None" by (rule conjunct1)
    have r: "res = Inr dbs0" by (simp add: res_def e)
    from createTables_healthy [OF h ct] show "res = Inr dbs0 \<and> healthy w' \<and> saved w' = None \<and>
     gauges (db w') = Some (case gauges (db w) of None \<Rightarrow> Map.empty | Some rel \<Rightarrow> rel) \<and>
     counters (db w') = Some (case counters (db w) of None \<Rightarrow> Map.empty | Some rel \<Rightarrow> rel) \<and>
     requests w w' =
       [ReqBegin, ReqTableExist ''gauges''] @
       (if gauges (db w) = None then [ReqCreateGauges] else []) @
       [ReqTableExist ''counters''] @
       (if counters (db w) = None then [ReqCreateCounters] else []) @
       [ReqCommit]"
      by (intro conjI r) (erule conjunct2 [THEN conjunct1] conjunct2 [THEN conjunct2, THEN conjunct1]
          conjunct2 [THEN conjunct2, THEN conjunct2, THEN conjunct1]
          conjunct2 [THEN conjunct2, THEN conjunct2, THEN conjunct2, THEN conjunct1]
          conjunct2 [THEN conjunct2, THEN conjunct2, THEN conjunct2, THEN conjunct2])+
  qed
  show ?thesis
    unfolding new prod.case
    by (rule conjI [OF g conjI [OF c conjI [OF fails ok]]])
qed

lemma NewDBStorage_fresh:
  "NewDBStorage (backend_of no_relations []) =
     (Inr dbs0,
      \<lparr>db = empty_relations, saved = None, faults = [],
       issued = [ReqBegin, ReqTableExist ''gauges'', ReqCreateGauges,
                 ReqTableExist ''counters'', ReqCreateCounters, ReqCommit]\<rparr>,
      [Invoke, Invoke, Invoke, Invoke])"
  by (simp add: NewDBStorage_def createTables_def createTables_fn_def errorHanlder_once conn_defs
        create_gauges_def create_counters_def table_exist_def backend_of_def no_relations_def
        empty_relations_def fault_at_def advance_def)

lemma NewDBStorage_again:
  "NewDBStorage
      \<lparr>db = empty_relations, saved = None, faults = [],
       issued = [ReqBegin, ReqTableExist ''gauges'', ReqCreateGauges,
                 ReqTableExist ''counters'', ReqCreateCounters, ReqCommit]\<rparr> =
     (Inr dbs0,
      \<lparr>db = empty_relations, saved = None, faults = [],
       issued = [ReqBegin, ReqTableExist ''gauges'', ReqCreateGauges,
                 ReqTableExist ''counters'', ReqCreateCounters, ReqCommit,
                 ReqBegin, ReqTableExist ''gauges'', ReqTableExist ''counters'', ReqCommit]\<rparr>,
      [Invoke, Invoke])"
  by (simp add: NewDBStorage_def createTables_def createTables_fn_def errorHanlder_once conn_defs
        create_gauges_def create_counters_def table_exist_def backend_of_def no_relations_def
        empty_relations_def fault_at_def advance_def)

lemma NewDBStorage_check_fails:
  "NewDBStorage (backend_of no_relations [None, Some (PgError ''08006'')]) =
     (Inl (Wrap ''create tables in database'' (Wrap ''get gauges table'' (PgError ''08006''))),
      \<lparr>db = no_relations, saved = None, faults = [],
       issued = [ReqBegin, ReqTableExist ''gauges'', ReqRollback]\<rparr>,
      [Invoke])"
  by (simp add: NewDBStorage_def createTables_def createTables_fn_def errorHanlder_once conn_defs
        create_gauges_def create_counters_def table_exist_def backend_of_def no_relations_def
        empty_relations_def fault_at_def advance_def restore_def)


text \<open>The hypotheses of C9: a backend without relations that answers every round trip
  (construction succeeds and can be repeated without a create statement), and one whose
  answer to the first existence check is a lost connection (construction fails).\<close>

theorem NewDBStorage_ensures_relations_witness:
  "healthy (backend_of no_relations []) \<and>
   ReqCreateGauges \<in> set (requests (backend_of no_relations [])
      \<lparr>db = empty_relations, saved = None, faults = [],
       issued = [ReqBegin, ReqTableExist ''gauges'', ReqCreateGauges,
                 ReqTableExist ''counters'', ReqCreateCounters, ReqCommit]\<rparr>) \<and>
   ReqCreateCounters \<in> set (requests (backend_of no_relations [])
      \<lparr>db = empty_relations, saved = None, faults = [],
       issued = [ReqBegin, ReqTableExist ''gauges'', ReqCreateGauges,
                 ReqTableExist ''counters'', ReqCreateCounters, ReqCommit]\<rparr>) \<and>
   NewDBStorage (backend_of no_relations []) =
     (Inr \<lparr>retryCount = 0, duration = 0, durationPolicy = 0\<rparr>,
      \<lparr>db = empty_relations, saved = None, faults = [],
       issued = [ReqBegin, ReqTableExist ''gauges'', ReqCreateGauges,
                 ReqTableExist ''counters'', ReqCreateCounters, ReqCommit]\<rparr>,
      [Invoke, Invoke, Invoke, Invoke]) \<and>
   healthy
      \<lparr>db = empty_relations, saved = None, faults = [],
       issued = [ReqBegin, ReqTableExist ''gauges'', ReqCreateGauges,
                 ReqTableExist ''counters'', ReqCreateCounters, ReqCommit]\<rparr> \<and>
   NewDBStorage
      \<lparr>db = empty_relations, saved = None, faults = [],
       issued = [ReqBegin, ReqTableExist ''gauges'', ReqCreateGauges,
                 ReqTableExist ''counters'', ReqCreateCounters, ReqCommit]\<rparr> =
     (Inr \<lparr>retryCount = 0, duration = 0, durationPolicy = 0\<rparr>,
      \<lparr>db = empty_relations, saved = None, faults = [],
       issued = [ReqBegin, ReqTableExist ''gauges'', ReqCreateGauges,
                 ReqTableExist ''counters'', ReqCreateCounters, ReqCommit,
                 ReqBegin, ReqTableExist ''gauges'', ReqTableExist ''counters'', ReqCommit]\<rparr>,
      [Invoke, Invoke]) \<and>
   Some (PgError ''08006'') \<in> set (consumed (backend_of no_relations [None, Some (PgError ''08006'')])
      \<lparr>db = no_relations, saved = None, faults = [],
       issued = [ReqBegin, ReqTableExist ''gauges'', ReqRollback]\<rparr>) \<and>
   NewDBStorage (backend_of no_relations [None, Some (PgError ''08006'')]) =
     (Inl (Wrap ''create tables in database'' (Wrap ''get gauges table'' (PgError ''08006''))),
      \<lparr>db = no_relations, saved = None, faults = [],
       issued = [ReqBegin, ReqTableExist ''gauges'', ReqRollback]\<rparr>,
      [Invoke])"
proof -
  have h: "healthy (backend_of no_relations [])"
    by (simp add: healthy_def backend_of_def)
  have rq: "ReqCreateGauges \<in> set (requests (backend_of no_relations [])
      \<lparr>db = empty_relations, saved = None, faults = [],
       issued = [ReqBegin, ReqTableExist ''gauges'', ReqCreateGauges,
                 ReqTableExist ''counters'', ReqCreateCounters, ReqCommit]\<rparr>)"
    "ReqCreateCounters \<in> set (requests (backend_of no_relations [])
      \<lparr>db = empty_relations, saved = None, faults = [],
       issued = [ReqBegin, ReqTableExist ''gauges'', ReqCreateGauges,
                 ReqTableExist ''counters'', ReqCreateCounters, ReqCommit]\<rparr>)"
    by (simp_all add: requests_def backend_of_def)
  have c: "Some (PgError ''08006'') \<in> set (consumed (backend_of no_relations [None, Some (PgError ''08006'')])
      \<lparr>db = no_relations, saved = None, faults = [],
       issued = [ReqBegin, ReqTableExist ''gauges'', ReqRollback]\<rparr>)"
    by (simp add: consumed_def backend_of_def)
  note at_fresh = NewDBStorage_ensures_relations [of "backend_of no_relations []",
      unfolded NewDBStorage_fresh prod.case]
  have h1: "healthy
      \<lparr>db = empty_relations, saved = None, faults = [],
       issued = [ReqBegin, ReqTableExist ''gauges'', ReqCreateGauges,
                 ReqTableExist ''counters'', ReqCreateCounters, ReqCommit]\<rparr>"
    by (rule at_fresh [THEN conjunct2, THEN conjunct2, THEN conjunct2, THEN mp, OF h,
          THEN conjunct2, THEN conjunct1])
  show ?thesis
    by (rule conjI [OF h conjI [OF rq(1) conjI [OF rq(2) conjI [OF NewDBStorage_fresh
          conjI [OF h1 conjI [OF NewDBStorage_again conjI [OF c NewDBStorage_check_fails]]]]]]])
qed

lemma quiet_simps [simp]: "quiet []" "quiet [Invoke]"
  by (simp_all add: quiet_def invocations_def)

lemma errorHanlder_trace0:
  "retryCount dbs \<le> 0 \<Longrightarrow> errorHanlder dbs h x = (e, x', t) \<Longrightarrow> t = [Invoke]"
  by (auto simp: errorHanlder_once split: prod.splits)

lemma updateCounterByMetrics_quiet:
  assumes "retryCount dbs \<le> 0"
  shows "quiet (snd (snd (updateCounterByMetrics dbs name delta x)))"
proof (cases delta)
  case None
  then show ?thesis by (simp add: updateCounterByMetrics_def)
next
  case (Some d)
  obtain e x' nd t where eh:
    "errorHanlder dbs (QueryRow_Scan (ReqUpsertCounter name d) (upsert_counter name d)) (x, 0) =
       (e, (x', nd), t)"
    by (metis prod.exhaust)
  from errorHanlder_trace0 [OF assms eh] Some eh show ?thesis
    by (cases e) (simp_all add: updateCounterByMetrics_def)
qed

lemma updateGaugeByMetrics_quiet:
  assumes "retryCount dbs \<le> 0"
  shows "quiet (snd (snd (updateGaugeByMetrics dbs name val x)))"
proof (cases val)
  case None
  then show ?thesis by (simp add: updateGaugeByMetrics_def)
next
  case (Some v)
  obtain e x' nv t where eh:
    "errorHanlder dbs (QueryRow_Scan (ReqUpsertGauge name v) (upsert_gauge name v)) (x, 0) =
       (e, (x', nv), t)"
    by (metis prod.exhaust)
  from errorHanlder_trace0 [OF assms eh] Some eh show ?thesis
    by (cases e) (simp_all add: updateGaugeByMetrics_def)
qed

lemma valueCounterByMetrics_quiet:
  assumes "retryCount dbs \<le> 0"
  shows "quiet (snd (snd (valueCounterByMetrics dbs name x)))"
proof -
  obtain e x' c t where eh:
    "errorHanlder dbs (QueryRow_Scan (ReqSelectCounter name) (select_counter name)) (x, 0) =
       (e, (x', c), t)"
    by (metis prod.exhaust)
  from errorHanlder_trace0 [OF assms eh] eh show ?thesis
    by (cases e) (simp_all add: valueCounterByMetrics_def)
qed

lemma valueGaugeByMetrics_quiet:
  assumes "retryCount dbs \<le> 0"
  shows "quiet (snd (snd (valueGaugeByMetrics dbs name x)))"
proof -
  obtain e x' g t where eh:
    "errorHanlder dbs (QueryRow_Scan (ReqSelectGauge name) (select_gauge name)) (x, 0) =
       (e, (x', g), t)"
    by (metis prod.exhaust)
  from errorHanlder_trace0 [OF assms eh] eh show ?thesis
    by (cases e) (simp_all add: valueGaugeByMetrics_def)
qed

lemma BeginFunc_errorHanlder_quiet:
  assumes "retryCount dbs \<le> 0"
  shows "quiet (snd (snd (BeginFunc (errorHanlder dbs h) x)))"
proof (cases "Begin x")
  case (Pair b x1)
  show ?thesis
  proof (cases b)
    case (Some e)
    with Pair show ?thesis by (simp add: BeginFunc_def)
  next
    case None
    obtain e x2 t where eh: "errorHanlder dbs h x1 = (e, x2, t)"
      by (metis prod.exhaust)
    from errorHanlder_trace0 [OF assms eh] eh Pair None show ?thesis
      by (cases e) (simp_all add: BeginFunc_def split: prod.splits)
  qed
qed

lemma Updates_quiet:
  assumes "retryCount dbs \<le> 0"
  shows "quiet (snd (snd (Updates dbs metrics x)))"
proof (cases "queue_metrics metrics []")
  case None
  then show ?thesis by (simp add: Updates_def)
next
  case (Some batch)
  obtain e x' t where bf: "BeginFunc (errorHanlder dbs (SendBatch_Close batch)) x = (e, x', t)"
    by (metis prod.exhaust)
  from BeginFunc_errorHanlder_quiet [OF assms, of "SendBatch_Close batch" x] bf Some show ?thesis
    by (cases e) (simp_all add: Updates_def)
qed

text \<open>
  C3. A store built by \<open>NewDBStorage\<close> has \<open>retryCount\<close>, \<open>duration\<close> and
  \<open>durationPolicy\<close> at zero. Its \<open>errorHanlder\<close> therefore calls every wrapped operation
  exactly once, never sleeps and returns the first error unchanged; each store operation
  (the construction itself, \<open>UpdateByMetrics\<close>, \<open>ValueByMetrics\<close>, \<open>Updates\<close>) makes at
  most one call of its wrapped function, with no sleep.
\<close>

theorem NewDBStorage_never_retries:
  "NewDBStorage w = (Inr dbs, w', tr) \<Longrightarrow>
     retryCount dbs = 0 \<and> duration dbs = 0 \<and> durationPolicy dbs = 0 \<and> slept tr = [] \<and>
     (\<forall>h x. errorHanlder dbs h x = (fst (h x), snd (h x), [Invoke])) \<and>
     (\<forall>m x. quiet (snd (snd (UpdateByMetrics dbs m x)))) \<and>
     (\<forall>m x. quiet (snd (snd (ValueByMetrics dbs m x)))) \<and>
     (\<forall>metrics x. quiet (snd (snd (Updates dbs metrics x))))"
proof -
  assume new: "NewDBStorage w = (Inr dbs, w', tr)"
  obtain err w1 tr1 where ct: "createTables dbs0 w = (err, w1, tr1)"
    by (metis prod.exhaust)
  from new ct have dbs: "dbs = dbs0" and tr: "tr1 = tr"
    by (cases err; simp add: NewDBStorage_def)+
  have z: "retryCount dbs \<le> 0" by (simp add: dbs)
  have fields: "retryCount dbs = 0 \<and> duration dbs = 0 \<and> durationPolicy dbs = 0"
    by (simp add: dbs)
  have once: "\<forall>h x. errorHanlder dbs h x = (fst (h x), snd (h x), [Invoke])"
    by (simp add: errorHanlder_once [OF z] case_prod_beta)
  from createTables_creates_only_absent [OF ct] tr have sl: "slept tr = []" by simp
  have u: "\<forall>m x. quiet (snd (snd (UpdateByMetrics dbs m x)))"
    by (simp add: UpdateByMetrics_def updateCounterByMetrics_quiet [OF z]
          updateGaugeByMetrics_quiet [OF z])
  have v: "\<forall>m x. quiet (snd (snd (ValueByMetrics dbs m x)))"
    by (simp add: ValueByMetrics_def valueCounterByMetrics_quiet [OF z]
          valueGaugeByMetrics_quiet [OF z])
  have b: "\<forall>metrics x. quiet (snd (snd (Updates dbs metrics x)))"
    by (simp add: Updates_quiet [OF z])
  from fields sl once u v b show ?thesis by blast
qed

text \<open>The hypothesis of C3 holds for the construction over a database without relations;
  the store it returns calls an operation that fails transiently once.\<close>

theorem NewDBStorage_never_retries_witness:
  "NewDBStorage (backend_of no_relations []) =
     (Inr \<lparr>retryCount = 0, duration = 0, durationPolicy = 0\<rparr>,
      \<lparr>db = empty_relations, saved = None, faults = [],
       issued = [ReqBegin, ReqTableExist ''gauges'', ReqCreateGauges,
                 ReqTableExist ''counters'', ReqCreateCounters, ReqCommit]\<rparr>,
      [Invoke, Invoke, Invoke, Invoke]) \<and>
   errorHanlder \<lparr>retryCount = 0, duration = 0, durationPolicy = 0\<rparr> scripted
     [Some (PgError ''08006''), None] = (Some (PgError ''08006''), [None], [Invoke])"
proof -
  note fresh = NewDBStorage_fresh
  have "errorHanlder dbs0 scripted [Some (PgError ''08006''), None] =
      (fst (scripted [Some (PgError ''08006''), None]),
       snd (scripted [Some (PgError ''08006''), None]), [Invoke])"
    by (rule NewDBStorage_never_retries [OF fresh, THEN conjunct2, THEN conjunct2, THEN conjunct2,
          THEN conjunct2, THEN conjunct1, THEN spec, THEN spec])
  with fresh show ?thesis by (simp add: scripted_def)
qed

text \<open>
  C6. \<open>UpdateByMetrics\<close> on a metric whose kind is neither \<open>counter\<close> nor \<open>gauge\<close> fails
  with \<open>unknown type\<close>; on a counter without delta it fails with \<open>delta is empty\<close>; on a
  gauge without value it fails with \<open>value is empty\<close>. In each case the backend is left
  exactly as it was (nothing is sent) and the trace is empty: the wrapped operation is
  never called, so nothing is retried.
\<close>

theorem UpdateByMetrics_rejects:
  "(MType m \<noteq> ''counter'' \<and> MType m \<noteq> ''gauge'' \<longrightarrow>
      UpdateByMetrics dbs m w = (Inl (ErrText (''unknown type '' @ MType m)), w, [])) \<and>
   (MType m = ''counter'' \<and> Delta m = None \<longrightarrow>
      UpdateByMetrics dbs m w = (Inl (ErrText ''delta is empty''), w, [])) \<and>
   (MType m = ''gauge'' \<and> Value m = None \<longrightarrow>
      UpdateByMetrics dbs m w = (Inl (ErrText ''value is empty''), w, []))"
  by (simp add: UpdateByMetrics_def updateCounterByMetrics_def updateGaugeByMetrics_def)

text \<open>The three hypotheses of C6, one metric for each, with a retrying store and a
  backend that would fail transiently.\<close>

theorem UpdateByMetrics_rejects_witness:
  "UpdateByMetrics \<lparr>retryCount = 3, duration = 1, durationPolicy = 1\<rparr>
      \<lparr>ID = ''load'', MType = ''histogram'', Delta = Some 1, Value = None\<rparr>
      (backend_of empty_relations [Some (PgError ''08006'')]) =
     (Inl (ErrText ''unknown type histogram''), backend_of empty_relations [Some (PgError ''08006'')], []) \<and>
   UpdateByMetrics \<lparr>retryCount = 3, duration = 1, durationPolicy = 1\<rparr>
      \<lparr>ID = ''hits'', MType = ''counter'', Delta = None, Value = Some 7\<rparr>
      (backend_of empty_relations [Some (PgError ''08006'')]) =
     (Inl (ErrText ''delta is empty''), backend_of empty_relations [Some (PgError ''08006'')], []) \<and>
   UpdateByMetrics \<lparr>retryCount = 3, duration = 1, durationPolicy = 1\<rparr>
      \<lparr>ID = ''temp'', MType = ''gauge'', Delta = Some 7, Value = None\<rparr>
      (backend_of empty_relations [Some (PgError ''08006'')]) =
     (Inl (ErrText ''value is empty''), backend_of empty_relations [Some (PgError ''08006'')], [])"
  using
    UpdateByMetrics_rejects [of "\<lparr>ID = ''load'', MType = ''histogram'', Delta = Some 1, Value = None\<rparr>"
      "\<lparr>retryCount = 3, duration = 1, durationPolicy = 1\<rparr>"
      "backend_of empty_relations [Some (PgError ''08006'')]"]
    UpdateByMetrics_rejects [of "\<lparr>ID = ''hits'', MType = ''counter'', Delta = None, Value = Some 7\<rparr>"
      "\<lparr>retryCount = 3, duration = 1, durationPolicy = 1\<rparr>"
      "backend_of empty_relations [Some (PgError ''08006'')]"]
    UpdateByMetrics_rejects [of "\<lparr>ID = ''temp'', MType = ''gauge'', Delta = Some 7, Value = None\<rparr>"
      "\<lparr>retryCount = 3, duration = 1, durationPolicy = 1\<rparr>"
      "backend_of empty_relations [Some (PgError ''08006'')]"]
  by simp

lemma queue_metrics_None: "queue_metrics metrics batch = None \<longleftrightarrow> (\<exists>m \<in> set metrics. nil_value m)"
  by (induction metrics arbitrary: batch) (auto simp: nil_value_def split: option.splits)

text \<open>
  C10. \<open>Updates\<close> dereferences the value pointer of each metric without a nil check: a
  batch that holds a gauge without value or a counter without delta makes it panic, before
  anything is sent, where \<open>UpdateByMetrics\<close> returns an error for the same metric.
\<close>

theorem Updates_nil_deref:
  "((\<exists>m \<in> set metrics. nil_value m) \<longrightarrow> Updates dbs metrics w = (Panics, w, [])) \<and>
   Updates dbs [\<lparr>ID = ''temp'', MType = ''gauge'', Delta = None, Value = None\<rparr>] w = (Panics, w, []) \<and>
   UpdateByMetrics dbs \<lparr>ID = ''temp'', MType = ''gauge'', Delta = None, Value = None\<rparr> w =
     (Inl (ErrText ''value is empty''), w, []) \<and>
   Updates dbs [\<lparr>ID = ''hits'', MType = ''counter'', Delta = None, Value = None\<rparr>] w = (Panics, w, []) \<and>
   UpdateByMetrics dbs \<lparr>ID = ''hits'', MType = ''counter'', Delta = None, Value = None\<rparr> w =
     (Inl (ErrText ''delta is empty''), w, [])"
proof -
  have "(\<exists>m \<in> set metrics. nil_value m) \<longrightarrow> Updates dbs metrics w = (Panics, w, [])"
    using queue_metrics_None [of metrics "[]"] by (auto simp: Updates_def)
  then show ?thesis
    by (simp add: Updates_def UpdateByMetrics_def updateCounterByMetrics_def
          updateGaugeByMetrics_def)
qed

text \<open>The hypothesis of C10 for a batch of a valid counter followed by a gauge without
  value.\<close>

theorem Updates_nil_deref_witness:
  "nil_value \<lparr>ID = ''temp'', MType = ''gauge'', Delta = None, Value = None\<rparr> \<and>
   Updates \<lparr>retryCount = 0, duration = 0, durationPolicy = 0\<rparr>
     [\<lparr>ID = ''hits'', MType = ''counter'', Delta = Some 5, Value = None\<rparr>,
      \<lparr>ID = ''temp'', MType = ''gauge'', Delta = None, Value = None\<rparr>]
     (backend_of empty_relations []) = (Panics, backend_of empty_relations [], [])"
  using Updates_nil_deref [of
     "[\<lparr>ID = ''hits'', MType = ''counter'', Delta = Some 5, Value = None\<rparr>,
      \<lparr>ID = ''temp'', MType = ''gauge'', Delta = None, Value = None\<rparr>]"
     "\<lparr>retryCount = 0, duration = 0, durationPolicy = 0\<rparr>" "backend_of empty_relations []"]
  by (simp add: nil_value_def)



subsection \<open>Batches\<close>

lemma retry_loop_rule:
  "(\<forall>x e x'. I x \<longrightarrow> h x = (e, x') \<longrightarrow>
      (transient e \<longrightarrow> I x') \<and> (\<not> transient e \<longrightarrow> Q e x')) \<Longrightarrow>
   I x \<Longrightarrow> transient err \<Longrightarrow> retry_loop dbs h i d err x tr = (e, x', t) \<Longrightarrow>
     (transient e \<and> I x') \<or> (\<not> transient e \<and> Q e x')"
proof (induction dbs h i d err x tr rule: retry_loop.induct)
  case (1 dbs h i d err x tr)
  note step = "1.prems"(1) and inv = "1.prems"(2) and tr = "1.prems"(3) and run = "1.prems"(4)
  show ?case
  proof (cases "i < retryCount dbs")
    case False
    with inv tr run show ?thesis by (simp add: retry_loop.simps [of dbs h i])
  next
    case True
    obtain e1 x1 where h: "h x = (e1, x1)" by (cases "h x")
    from step inv h have s: "(transient e1 \<longrightarrow> I x1) \<and> (\<not> transient e1 \<longrightarrow> Q e1 x1)"
      by blast
    show ?thesis
    proof (cases "transient e1")
      case False
      with True h run s show ?thesis
        by (simp add: retry_loop.simps [of dbs h i])
    next
      case t: True
      from True h t run
      have next_run: "retry_loop dbs h (i + 1) (d + durationPolicy dbs) e1 x1 (tr @ [Sleep d, Invoke]) =
          (e, x', t)"
        by (simp add: retry_loop.simps [of dbs h i])
      from t s have "I x1" by blast
      from "1.IH" [OF True h [symmetric] _ step this t next_run] t show ?thesis by simp
    qed
  qed
qed

lemma errorHanlder_rule:
  assumes step: "\<And>x e x'. I x \<Longrightarrow> h x = (e, x') \<Longrightarrow>
      (transient e \<longrightarrow> I x') \<and> (\<not> transient e \<longrightarrow> Q e x')"
    and init: "I x" and run: "errorHanlder dbs h x = (e, x', t)"
  shows "(transient e \<and> I x') \<or> (\<not> transient e \<and> Q e x')"
proof -
  obtain e1 x1 where h: "h x = (e1, x1)" by (cases "h x")
  from step [OF init h] have s: "(transient e1 \<longrightarrow> I x1) \<and> (\<not> transient e1 \<longrightarrow> Q e1 x1)" .
  have all: "\<forall>x e x'. I x \<longrightarrow> h x = (e, x') \<longrightarrow>
      (transient e \<longrightarrow> I x') \<and> (\<not> transient e \<longrightarrow> Q e x')"
    using step by blast
  show ?thesis
  proof (cases "transient e1 \<and> 0 < retryCount dbs")
    case True
    then obtain f where "e1 = Some f" by (cases e1) (auto simp: transient_def)
    with True h run have "retry_loop dbs h 0 (duration dbs) e1 x1 [Invoke] = (e, x', t)"
      by (simp add: errorHanlder_def)
    from retry_loop_rule [OF all _ _ this] True s show ?thesis by blast
  next
    case False
    with h run have "e = e1 \<and> x' = x1" by (auto simp: errorHanlder_def split: if_splits)
    with s show ?thesis by blast
  qed
qed

lemma run_queued_permanent: "run_queued q r = (Some e, r') \<Longrightarrow> \<not> transient (Some e)"
  by (cases q)
    (auto simp: upsert_gauge_def upsert_counter_def transient_def IsConnectionException_def Let_def
       split: option.splits if_splits)

lemma run_batch_permanent: "run_batch batch r = (Some e, r') \<Longrightarrow> \<not> transient (Some e)"
proof (induction batch arbitrary: r)
  case Nil
  then show ?case by simp
next
  case (Cons q qs)
  obtain e1 r1 where q: "run_queued q r = (e1, r1)" by (cases "run_queued q r")
  show ?case
  proof (cases e1)
    case None
    with q Cons show ?thesis by simp
  next
    case (Some f)
    with q Cons.prems have "e = f" by simp
    with q Some run_queued_permanent show ?thesis by blast
  qed
qed

lemma SendBatch_Close_step:
  assumes I: "db x = r0 \<and> saved x = s0" and h: "SendBatch_Close batch x = (e, x')"
  shows "(transient e \<longrightarrow> db x' = r0 \<and> saved x' = s0) \<and>
         (\<not> transient e \<longrightarrow> saved x' = s0 \<and> (e = None \<longrightarrow> run_batch batch r0 = (None, db x')))"
proof (cases "fault_at (faults x) 0")
  case (Some f)
  with h I show ?thesis by (auto simp: SendBatch_Close_def Exec_step)
next
  case None
  obtain e1 r1 where rb: "run_batch batch (db x) = (e1, r1)" by (cases "run_batch batch (db x)")
  with None h have e: "e = e1" and x': "x' = (advance (ReqBatch batch) x)\<lparr>db := r1\<rparr>"
    by (auto simp: SendBatch_Close_def Exec_step)
  have "\<not> transient e"
    using rb e run_batch_permanent [of batch "db x" _ r1] by (cases e1) (auto simp: transient_def)
  with I rb e x' show ?thesis by auto
qed

lemma BeginFunc_SendBatch:
  assumes "BeginFunc (errorHanlder dbs (SendBatch_Close batch)) w = (e, w', t)"
  shows "(e \<noteq> None \<longrightarrow> db w' = db w) \<and> (e = None \<longrightarrow> run_batch batch (db w) = (None, db w'))"
proof (cases "fault_at (faults w) 0")
  case (Some f)
  with assms show ?thesis by (auto simp: BeginFunc_def Begin_def round_trip_advance)
next
  case None
  define w1 where "w1 = (advance ReqBegin w)\<lparr>saved := Some (db w)\<rparr>"
  obtain e2 w2 t2 where eh: "errorHanlder dbs (SendBatch_Close batch) w1 = (e2, w2, t2)"
    by (metis prod.exhaust)
  have init: "db w1 = db w \<and> saved w1 = Some (db w)" by (simp add: w1_def)
  have "(transient e2 \<and> (db w2 = db w \<and> saved w2 = Some (db w))) \<or>
        (\<not> transient e2 \<and>
           (saved w2 = Some (db w) \<and> (e2 = None \<longrightarrow> run_batch batch (db w) = (None, db w2))))"
  proof (rule errorHanlder_rule [where I = "\<lambda>x. db x = db w \<and> saved x = Some (db w)"
        and Q = "\<lambda>e x. saved x = Some (db w) \<and> (e = None \<longrightarrow> run_batch batch (db w) = (None, db x))"
        and h = "SendBatch_Close batch" and x = w1 and dbs = dbs and t = t2])
    fix x e x'
    assume "db x = db w \<and> saved x = Some (db w)" and "SendBatch_Close batch x = (e, x')"
    then show "(transient e \<longrightarrow> db x' = db w \<and> saved x' = Some (db w)) \<and>
      (\<not> transient e \<longrightarrow>
         saved x' = Some (db w) \<and> (e = None \<longrightarrow> run_batch batch (db w) = (None, db x')))"
      by (rule SendBatch_Close_step)
  next
    show "db w1 = db w \<and> saved w1 = Some (db w)" by (rule init)
  next
    show "errorHanlder dbs (SendBatch_Close batch) w1 = (e2, w2, t2)" by (rule eh)
  qed
  then have sv: "saved w2 = Some (db w)"
    and ok: "e2 = None \<longrightarrow> run_batch batch (db w) = (None, db w2)"
    by (auto simp: transient_def)
  show ?thesis
  proof (cases e2)
    case (Some f)
    with assms None eh sv show ?thesis
      by (auto simp: BeginFunc_def Begin_def Rollback_def round_trip_advance w1_def [symmetric])
  next
    case e2: None
    with assms None eh sv ok show ?thesis
      by (auto simp: BeginFunc_def Begin_def Commit_def round_trip_advance w1_def [symmetric]
            split: option.splits)
  qed
qed

text \<open>
  What \<open>Updates\<close> does with the statements it queued: whenever it does not return nil (it
  panics on a nil value pointer, or returns an error: the begin, the batch or the commit
  failed, after whatever retries), the relations are exactly as they were before the call;
  when it returns nil, every queued statement has been applied, in order.
\<close>

lemma Updates_all_or_nothing:
  "Updates dbs metrics w = (res, w', tr) \<Longrightarrow>
     (res \<noteq> Returns None \<longrightarrow> db w' = db w) \<and>
     (res = Returns None \<longrightarrow>
        (\<exists>batch. queue_metrics metrics [] = Some batch \<and> run_batch batch (db w) = (None, db w')))"
proof -
  assume u: "Updates dbs metrics w = (res, w', tr)"
  show ?thesis
  proof (cases "queue_metrics metrics []")
    case None
    with u show ?thesis by (auto simp: Updates_def)
  next
    case (Some batch)
    obtain e w1 t where bf: "BeginFunc (errorHanlder dbs (SendBatch_Close batch)) w = (e, w1, t)"
      by (metis prod.exhaust)
    from BeginFunc_SendBatch [OF bf] u Some bf show ?thesis
      by (cases e) (auto simp: Updates_def)
  qed
qed

lemmas store_eval = Updates_def BeginFunc_def Begin_def Commit_def Rollback_def restore_def
  round_trip_def SendBatch_Close_def Exec_def QueryRow_Scan_def errorHanlder_def
  retry_loop.simps transient_def IsConnectionException_def upsert_counter_def upsert_gauge_def
  varchar150_def
  select_counter_def select_gauge_def int4_def backend_of_def empty_relations_def
  no_relations_def Let_def

lemma Updates_rolled_back:
  "Updates \<lparr>retryCount = 3, duration = 1, durationPolicy = 1\<rparr>
      [\<lparr>ID = ''hits'', MType = ''counter'', Delta = Some 5, Value = None\<rparr>,
       \<lparr>ID = ''hits'', MType = ''counter'', Delta = Some 2147483647, Value = None\<rparr>]
      (backend_of empty_relations []) =
     (Returns (Some (Wrap ''send batch'' (PgError ''22003''))),
      \<lparr>db = empty_relations, saved = None, faults = [],
       issued = [ReqBegin, ReqBatch [QCounter ''hits'' 5, QCounter ''hits'' 2147483647],
                 ReqRollback]\<rparr>,
      [Invoke])"
  by (simp add: store_eval)

lemma Updates_committed:
  "Updates \<lparr>retryCount = 3, duration = 1, durationPolicy = 1\<rparr>
      [\<lparr>ID = ''hits'', MType = ''counter'', Delta = Some 5, Value = None\<rparr>,
       \<lparr>ID = ''temp'', MType = ''gauge'', Delta = None, Value = Some 0x400C000000000000\<rparr>,
       \<lparr>ID = ''hits'', MType = ''counter'', Delta = Some 7, Value = None\<rparr>]
      (backend_of empty_relations [None, Some (PgError ''08006'')]) =
     (Returns None,
      \<lparr>db = \<lparr>gauges = Some [''temp'' \<mapsto> 0x400C000000000000], counters = Some [''hits'' \<mapsto> 12]\<rparr>,
       saved = None, faults = [],
       issued = [ReqBegin,
                 ReqBatch [QCounter ''hits'' 5, QGauge ''temp'' 0x400C000000000000, QCounter ''hits'' 7],
                 ReqBatch [QCounter ''hits'' 5, QGauge ''temp'' 0x400C000000000000, QCounter ''hits'' 7],
                 ReqCommit]\<rparr>,
      [Invoke, Sleep 1, Invoke])"
  by (simp add: store_eval)

text \<open>
  C1. \<open>Updates\<close> is not all-or-nothing for every batch. The loop that queues the
  statements has no case for a metric whose kind is neither \<open>gauge\<close> nor \<open>counter\<close>: on
  a store built by \<open>NewDBStorage\<close>, the batch of the counter \<open>hits\<close> with delta 5 and a
  metric of kind \<open>histogram\<close> returns nil, with \<open>hits\<close> committed and the other metric
  dropped, where \<open>UpdateByMetrics\<close> rejects the same metric with \<open>unknown type\<close>.
\<close>

theorem Updates_drops_unknown_kind:
  "Updates dbs0
      [\<lparr>ID = ''hits'', MType = ''counter'', Delta = Some 5, Value = None\<rparr>,
       \<lparr>ID = ''load'', MType = ''histogram'', Delta = Some 1, Value = None\<rparr>]
      (backend_of empty_relations []) =
     (Returns None,
      \<lparr>db = \<lparr>gauges = Some Map.empty, counters = Some [''hits'' \<mapsto> 5]\<rparr>,
       saved = None, faults = [],
       issued = [ReqBegin, ReqBatch [QCounter ''hits'' 5], ReqCommit]\<rparr>,
      [Invoke]) \<and>
   UpdateByMetrics dbs0 \<lparr>ID = ''load'', MType = ''histogram'', Delta = Some 1, Value = None\<rparr>
      (backend_of empty_relations []) =
     (Inl (ErrText ''unknown type histogram''), backend_of empty_relations [], [])"
  by (simp add: store_eval UpdateByMetrics_def)

subsection \<open>Single updates\<close>

lemma errorHanlder_success:
  "fst (h x) = None \<Longrightarrow> errorHanlder dbs h x = (None, snd (h x), [Invoke])"
  by (cases "h x") (simp add: errorHanlder_def)


lemma update_counter_healthy:
  assumes "healthy w" and "counters (db w) = Some rel" and "varchar150 name" and "int4 d"
    and "int4 ((case rel name of None \<Rightarrow> 0 | Some c \<Rightarrow> c) + d)"
  shows "UpdateByMetrics dbs (NewMetricsForCounter name d) w =
     (Inr (NewMetricsForCounter name ((case rel name of None \<Rightarrow> 0 | Some c \<Rightarrow> c) + d)),
      (advance (ReqUpsertCounter name d) w)
        \<lparr>db := (db w)\<lparr>counters := Some (rel(name \<mapsto> (case rel name of None \<Rightarrow> 0 | Some c \<Rightarrow> c) + d))\<rparr>\<rparr>,
      [Invoke])"
proof -
  have h: "QueryRow_Scan (ReqUpsertCounter name d) (upsert_counter name d) (w, 0) =
      (None, (advance (ReqUpsertCounter name d) w)
        \<lparr>db := (db w)\<lparr>counters := Some (rel(name \<mapsto> (case rel name of None \<Rightarrow> 0 | Some c \<Rightarrow> c) + d))\<rparr>\<rparr>,
       (case rel name of None \<Rightarrow> 0 | Some c \<Rightarrow> c) + d)"
    using assms
    by (cases "rel name")
      (simp_all add: QueryRow_Scan_step healthy_fault_at upsert_counter_def Let_def)
  show ?thesis
    by (simp add: UpdateByMetrics_def updateCounterByMetrics_def NewMetricsForCounter_def
          errorHanlder_success h)
qed

lemma value_counter_healthy:
  assumes "healthy w" and "stored_counter w name = Some c"
  shows "fst (ValueByMetrics dbs (counter_named name) w) = Inr (NewMetricsForCounter name c)"
proof -
  from assms(2) obtain rel where rel: "counters (db w) = Some rel" "rel name = Some c"
    by (auto simp: stored_counter_def split: option.splits)
  have h: "QueryRow_Scan (ReqSelectCounter name) (select_counter name) (w, 0) =
      (None, (advance (ReqSelectCounter name) w)\<lparr>db := db w\<rparr>, c)"
    using assms(1) rel by (simp add: QueryRow_Scan_step healthy_fault_at select_counter_def)
  show ?thesis
    by (simp add: ValueByMetrics_def valueCounterByMetrics_def counter_named_def
          errorHanlder_success h)
qed







lemma counter_run:
  "healthy w \<Longrightarrow> counters (db w) = Some rel \<Longrightarrow> varchar150 name \<Longrightarrow>
   within_int4 (case rel name of None \<Rightarrow> 0 | Some c \<Rightarrow> c) ds \<Longrightarrow>
   update_each dbs (map (NewMetricsForCounter name) ds) w = (rs, w') \<Longrightarrow>
     rs = map (\<lambda>t. Inr (NewMetricsForCounter name t))
            (running (case rel name of None \<Rightarrow> 0 | Some c \<Rightarrow> c) ds) \<and>
     healthy w' \<and>
     stored_counter w' name =
       (if ds = [] then rel name
        else Some ((case rel name of None \<Rightarrow> 0 | Some c \<Rightarrow> c) + sum_list ds))"
proof (induction ds arbitrary: w rel rs)
  case Nil
  then show ?case by (simp add: stored_counter_def)
next
  case (Cons d ds)
  define s where "s = (case rel name of None \<Rightarrow> 0 | Some c \<Rightarrow> c)"
  define w1 where
    "w1 = (advance (ReqUpsertCounter name d) w)\<lparr>db := (db w)\<lparr>counters := Some (rel(name \<mapsto> s + d))\<rparr>\<rparr>"
  from Cons.prems(4) have d: "int4 d" "int4 (s + d)" and rest_ok: "within_int4 (s + d) ds"
    by (simp_all add: s_def)
  have step: "UpdateByMetrics dbs (NewMetricsForCounter name d) w =
      (Inr (NewMetricsForCounter name (s + d)), w1, [Invoke])"
    unfolding w1_def s_def
    by (rule update_counter_healthy [OF Cons.prems(1,2,3) d(1) d(2) [unfolded s_def]])
  obtain rs1 where rest: "update_each dbs (map (NewMetricsForCounter name) ds) w1 = (rs1, w')"
    and rs: "rs = Inr (NewMetricsForCounter name (s + d)) # rs1"
    using Cons.prems(5) step by (auto split: prod.splits)
  have h1: "healthy w1" and c1: "counters (db w1) = Some (rel(name \<mapsto> s + d))"
    using Cons.prems(1) by (simp_all add: w1_def)
  have ok1: "within_int4 (case (rel(name \<mapsto> s + d)) name of None \<Rightarrow> 0 | Some c \<Rightarrow> c) ds"
    using rest_ok by simp
  from Cons.IH [OF h1 c1 Cons.prems(3) ok1 rest] rs show ?case
    by (simp add: s_def [symmetric] add.assoc)
qed


lemma stored_counter_rel:
  "counters (db w) = Some rel \<Longrightarrow> stored_counter w name = rel name"
  by (simp add: stored_counter_def)

lemma stored_gauge_rel:
  "gauges (db w) = Some rel \<Longrightarrow> stored_gauge w name = rel name"
  by (simp add: stored_gauge_def)

lemmas update_eval = UpdateByMetrics_def updateCounterByMetrics_def updateGaugeByMetrics_def
  NewMetricsForCounter_def NewMetricsForGauge_def stored_counter_def stored_gauge_def




text \<open>
  While every delta and every running total fits \<open>INTEGER\<close> (and the name fits the
  column), counter updates against a backend that answers every round trip accumulate:
  each returns the total after it, the stored value at the end is the value before (0
  when the name is absent) plus the sum of the deltas, and another order of the same
  deltas that also stays within \<open>INTEGER\<close> ends with the same value.
\<close>

lemma counter_updates_accumulate:
  "healthy w \<Longrightarrow> counters (db w) \<noteq> None \<Longrightarrow> length name \<le> 150 \<Longrightarrow> ds \<noteq> [] \<Longrightarrow>
   within_int4 (case stored_counter w name of None \<Rightarrow> 0 | Some c \<Rightarrow> c) ds \<Longrightarrow>
   within_int4 (case stored_counter w name of None \<Rightarrow> 0 | Some c \<Rightarrow> c) ds2 \<Longrightarrow>
   mset ds2 = mset ds \<Longrightarrow>
   update_each dbs (map (NewMetricsForCounter name) ds) w = (rs, w') \<Longrightarrow>
   update_each dbs (map (NewMetricsForCounter name) ds2) w = (rs2, w2) \<Longrightarrow>
     rs = map (\<lambda>t. Inr (NewMetricsForCounter name t))
            (running (case stored_counter w name of None \<Rightarrow> 0 | Some c \<Rightarrow> c) ds) \<and>
     stored_counter w' name =
       Some ((case stored_counter w name of None \<Rightarrow> 0 | Some c \<Rightarrow> c) + sum_list ds) \<and>
     stored_counter w2 name = stored_counter w' name \<and>
     fst (ValueByMetrics dbs (counter_named name) w') =
       Inr (NewMetricsForCounter name
              ((case stored_counter w name of None \<Rightarrow> 0 | Some c \<Rightarrow> c) + sum_list ds))"
proof -
  assume h: "healthy w" and c: "counters (db w) \<noteq> None" and n: "length name \<le> 150"
    and ds: "ds \<noteq> []"
    and ok: "within_int4 (case stored_counter w name of None \<Rightarrow> 0 | Some c \<Rightarrow> c) ds"
    and ok2: "within_int4 (case stored_counter w name of None \<Rightarrow> 0 | Some c \<Rightarrow> c) ds2"
    and perm: "mset ds2 = mset ds"
    and run: "update_each dbs (map (NewMetricsForCounter name) ds) w = (rs, w')"
    and run2: "update_each dbs (map (NewMetricsForCounter name) ds2) w = (rs2, w2)"
  from c obtain rel where rel: "counters (db w) = Some rel" by blast
  from n have v: "varchar150 name" by (simp add: varchar150_def)
  note s = stored_counter_rel [OF rel, of name]
  from perm ds have ds2: "ds2 \<noteq> []" by auto
  have sum: "sum_list ds2 = sum_list ds"
    using perm by (metis sum_mset_sum_list)
  from counter_run [OF h rel v ok [unfolded s] run] ds
  have rs: "rs = map (\<lambda>t. Inr (NewMetricsForCounter name t))
            (running (case stored_counter w name of None \<Rightarrow> 0 | Some c \<Rightarrow> c) ds)"
    and h': "healthy w'"
    and st: "stored_counter w' name =
       Some ((case stored_counter w name of None \<Rightarrow> 0 | Some c \<Rightarrow> c) + sum_list ds)"
    by (simp_all add: s)
  from counter_run [OF h rel v ok2 [unfolded s] run2] ds2 sum
  have st2: "stored_counter w2 name = stored_counter w' name"
    by (simp add: s st)
  have rd: "fst (ValueByMetrics dbs (counter_named name) w') =
       Inr (NewMetricsForCounter name
              ((case stored_counter w name of None \<Rightarrow> 0 | Some c \<Rightarrow> c) + sum_list ds))"
    by (rule value_counter_healthy [OF h' st])
  from rs st st2 rd show ?thesis by (intro conjI)
qed

text \<open>
  C4. The counter does not hold the sum of every sequence of deltas. The deltas are
  \<open>int64\<close> in Go and the \<open>Delta\<close> column is \<open>INTEGER\<close>: on a store built by
  \<open>NewDBStorage\<close>, after the deltas 2147483647 and 1 to \<open>hits\<close> the second update has
  returned an error and 2147483647 is stored, not the sum 2147483648. The order matters
  too: 2147483647, 1, -1 ends at 2147483646 and 2147483647, -1, 1 ends at 2147483647.
\<close>

theorem counter_update_overflows:
  "fst (update_each dbs0 (map (NewMetricsForCounter ''hits'') [2147483647, 1])
          (backend_of empty_relations [])) =
     [Inr (NewMetricsForCounter ''hits'' 2147483647),
      Inl (Wrap ''query execution'' (PgError ''22003''))] \<and>
   stored_counter
     (snd (update_each dbs0 (map (NewMetricsForCounter ''hits'') [2147483647, 1])
             (backend_of empty_relations []))) ''hits'' = Some 2147483647 \<and>
   sum_list [2147483647, 1] = (2147483648 :: int) \<and>
   stored_counter
     (snd (update_each dbs0 (map (NewMetricsForCounter ''hits'') [2147483647, 1, - 1])
             (backend_of empty_relations []))) ''hits'' = Some 2147483646 \<and>
   stored_counter
     (snd (update_each dbs0 (map (NewMetricsForCounter ''hits'') [2147483647, - 1, 1])
             (backend_of empty_relations []))) ''hits'' = Some 2147483647"
  by (simp add: store_eval update_eval)

section \<open>Properties of the reporting agent\<close>

lemma sendReport_fields:
  "agent (sendReport G r o1 o2 s) = agent s"
  "reporter (sendReport G r o1 o2 s) = reporter s"
  "sampler (sendReport G r o1 o2 s) = sampler s"
  "sent (sendReport G r o1 o2 s) =
     sent s @ [SendBatch (AList.update ''RandomValue'' r (G (ms (agent s)))),
               SendCounter ''PollCount'' (pollCount (agent s))]"
  by (simp_all add: sendReport_def Let_def split: option.splits)

lemma sendReport_logged:
  "logged (sendReport G r o1 o2 s) =
     logged s @ (case o1 of None \<Rightarrow> [] | Some e \<Rightarrow> [Warn ''Push memstats'' e]) @
       (case o2 of None \<Rightarrow> [] | Some e \<Rightarrow> [Warn ''Error on sending poll count'' e])"
  by (simp add: sendReport_def Let_def split: option.splits)

lemma run_ticks_snoc: "run_ticks G a (ticks @ [t]) = step G (run_ticks G a ticks) t"
  by (simp add: run_ticks_def)

lemma step_tasks:
  "reporter s \<in> {Running, Returned None} \<Longrightarrow> sampler s \<in> {Running, Returned None} \<Longrightarrow>
   reporter (step G s t) \<in> {Running, Returned None} \<and>
   sampler (step G s t) \<in> {Running, Returned None}"
  by (cases t) (auto simp: sendReport_fields Let_def)

lemma run_ticks_tasks:
  "reporter (run_ticks G a ticks) \<in> {Running, Returned None} \<and>
   sampler (run_ticks G a ticks) \<in> {Running, Returned None}"
proof (induction ticks rule: rev_induct)
  case Nil
  show ?case by (simp add: run_ticks_def start_def)
next
  case (snoc t ticks)
  then show ?case using step_tasks [of "run_ticks G a ticks" G t]
    by (simp add: run_ticks_snoc)
qed

lemma run_ticks_running:
  "Signal \<notin> set ticks \<Longrightarrow>
   reporter (run_ticks G a ticks) = Running \<and> sampler (run_ticks G a ticks) = Running \<and>
   length (sent (run_ticks G a ticks)) = 2 * length (filter is_report ticks) \<and>
   pollCount (agent (run_ticks G a ticks)) =
     pollCount a + of_nat (length (filter is_poll ticks))"
proof (induction ticks rule: rev_induct)
  case Nil
  show ?case by (simp add: run_ticks_def start_def)
next
  case (snoc t ticks)
  then show ?case
    by (cases t) (simp_all add: run_ticks_snoc sendReport_fields)
qed

text \<open>
  C8. A failed push is logged and never propagated. Whatever the schedule and whatever the
  pushes return, neither goroutine of \<open>Run\<close> ever returns a non-nil error and \<open>Run\<close> never
  returns one. Until a termination signal arrives both goroutines keep running and \<open>Run\<close>
  does not return: every reporter tick has made its two pushes and every sampler tick has
  counted. A reporter tick with failing pushes leaves the reporter running and the
  sampler as it was, logs a warning for each failed push, and still sends the counter
  after a failed batch.
\<close>

theorem push_failure_not_propagated:
  "(\<forall>e. reporter (run_ticks G a ticks) \<noteq> Returned (Some e) \<and>
        sampler (run_ticks G a ticks) \<noteq> Returned (Some e) \<and>
        Run_result (run_ticks G a ticks) \<noteq> Some (Some e)) \<and>
   (Signal \<notin> set ticks \<longrightarrow>
      reporter (run_ticks G a ticks) = Running \<and> sampler (run_ticks G a ticks) = Running \<and>
      Run_result (run_ticks G a ticks) = None \<and>
      length (sent (run_ticks G a ticks)) = 2 * length (filter is_report ticks) \<and>
      pollCount (agent (run_ticks G a ticks)) =
        pollCount a + of_nat (length (filter is_poll ticks))) \<and>
   (reporter s = Running \<longrightarrow>
      reporter (step G s (ReportTick r o1 o2)) = Running \<and>
      sampler (step G s (ReportTick r o1 o2)) = sampler s \<and>
      Run_result (step G s (ReportTick r o1 o2)) = None \<and>
      SendCounter ''PollCount'' (pollCount (agent s)) \<in> set (sent (step G s (ReportTick r o1 o2))) \<and>
      (\<forall>e. o1 = Some e \<longrightarrow>
         Warn ''Push memstats'' e \<in> set (logged (step G s (ReportTick r o1 o2)))) \<and>
      (\<forall>e. o2 = Some e \<longrightarrow>
         Warn ''Error on sending poll count'' e \<in> set (logged (step G s (ReportTick r o1 o2)))))"
proof -
  from run_ticks_tasks [of G a ticks]
  have never: "\<forall>e. reporter (run_ticks G a ticks) \<noteq> Returned (Some e) \<and>
        sampler (run_ticks G a ticks) \<noteq> Returned (Some e) \<and>
        Run_result (run_ticks G a ticks) \<noteq> Some (Some e)"
    by (auto simp: Run_result_def split: task.splits option.splits)
  have on: "Signal \<notin> set ticks \<longrightarrow>
      reporter (run_ticks G a ticks) = Running \<and> sampler (run_ticks G a ticks) = Running \<and>
      Run_result (run_ticks G a ticks) = None \<and>
      length (sent (run_ticks G a ticks)) = 2 * length (filter is_report ticks) \<and>
      pollCount (agent (run_ticks G a ticks)) =
        pollCount a + of_nat (length (filter is_poll ticks))"
    using run_ticks_running [of ticks G a] by (simp add: Run_result_def)
  have tick: "reporter s = Running \<longrightarrow>
      reporter (step G s (ReportTick r o1 o2)) = Running \<and>
      sampler (step G s (ReportTick r o1 o2)) = sampler s \<and>
      Run_result (step G s (ReportTick r o1 o2)) = None \<and>
      SendCounter ''PollCount'' (pollCount (agent s)) \<in> set (sent (step G s (ReportTick r o1 o2))) \<and>
      (\<forall>e. o1 = Some e \<longrightarrow>
         Warn ''Push memstats'' e \<in> set (logged (step G s (ReportTick r o1 o2)))) \<and>
      (\<forall>e. o2 = Some e \<longrightarrow>
         Warn ''Error on sending poll count'' e \<in> set (logged (step G s (ReportTick r o1 o2))))"
    by (simp add: sendReport_fields sendReport_logged Run_result_def)
  from never on tick show ?thesis by (intro conjI)
qed

lemmas agent_eval = run_ticks_def start_def NewAgent_def sendReport_def Let_def
  one_batch_with_counter_def NewMetricsForGauge_def NewMetricsForCounter_def Run_result_def

text \<open>The hypotheses of C8: a schedule without signal in which both pushes of the
  first report fail.\<close>

theorem push_failure_not_propagated_witness:
  "Signal \<notin> set [PollTick [(''Alloc'', 1 :: float64)],
                   ReportTick 7 (Some (ErrText ''connection refused'')) (Some (ErrText ''connection refused'')),
                   PollTick [(''Alloc'', 2)], ReportTick 8 None None] \<and>
   reporter (start (NewAgent 10 2 [(''Alloc'', 0 :: float64)])) = Running \<and>
   reporter (run_ticks (\<lambda>m. m) (NewAgent 10 2 [(''Alloc'', 0)])
      [PollTick [(''Alloc'', 1)],
       ReportTick 7 (Some (ErrText ''connection refused'')) (Some (ErrText ''connection refused'')),
       PollTick [(''Alloc'', 2)], ReportTick 8 None None]) = Running \<and>
   Run_result (run_ticks (\<lambda>m. m) (NewAgent 10 2 [(''Alloc'', 0)])
      [PollTick [(''Alloc'', 1)],
       ReportTick 7 (Some (ErrText ''connection refused'')) (Some (ErrText ''connection refused'')),
       PollTick [(''Alloc'', 2)], ReportTick 8 None None]) = None \<and>
   sent (run_ticks (\<lambda>m. m) (NewAgent 10 2 [(''Alloc'', 0)])
      [PollTick [(''Alloc'', 1)],
       ReportTick 7 (Some (ErrText ''connection refused'')) (Some (ErrText ''connection refused'')),
       PollTick [(''Alloc'', 2)], ReportTick 8 None None]) =
     [SendBatch [(''Alloc'', 1), (''RandomValue'', 7)], SendCounter ''PollCount'' 1,
      SendBatch [(''Alloc'', 2), (''RandomValue'', 8)], SendCounter ''PollCount'' 2] \<and>
   logged (run_ticks (\<lambda>m. m) (NewAgent 10 2 [(''Alloc'', 0)])
      [PollTick [(''Alloc'', 1)],
       ReportTick 7 (Some (ErrText ''connection refused'')) (Some (ErrText ''connection refused'')),
       PollTick [(''Alloc'', 2)], ReportTick 8 None None]) =
     [Info ''Send report start'', Info ''Read mem stats start'',
      Warn ''Push memstats'' (ErrText ''connection refused''),
      Warn ''Error on sending poll count'' (ErrText ''connection refused'')]"
  using push_failure_not_propagated [of "\<lambda>m. m" "NewAgent 10 2 [(''Alloc'', 0 :: float64)]"
      "[PollTick [(''Alloc'', 1)],
        ReportTick 7 (Some (ErrText ''connection refused'')) (Some (ErrText ''connection refused'')),
        PollTick [(''Alloc'', 2)], ReportTick 8 None None]"
      "start (NewAgent 10 2 [(''Alloc'', 0 :: float64)])" 7 "Some (ErrText ''connection refused'')"
      "Some (ErrText ''connection refused'')"]
  by (simp add: agent_eval)

text \<open>
  C7, amended. On each reporter tick the agent makes two pushes. The first is one batch
  with a gauge for each sampled runtime statistic and the gauge \<open>RandomValue\<close> (which
  takes the place of a statistic of that name); every metric of the batch is a gauge. The
  second is a separate call that carries one counter, \<open>PollCount\<close>, with the current
  sample count. After one sampler tick and one reporter tick of a fresh agent the pushes
  are the batch of the statistics just sampled with \<open>RandomValue\<close>, and the counter
  \<open>PollCount\<close> with value 1.
\<close>

theorem sendReport_pushes:
  "reporter s = Running \<longrightarrow>
     sent (step G s (ReportTick r o1 o2)) =
       sent s @ [SendBatch (AList.update ''RandomValue'' r (G (ms (agent s)))),
                 SendCounter ''PollCount'' (pollCount (agent s))] \<and>
     map_of (AList.update ''RandomValue'' r (G (ms (agent s)))) =
       (map_of (G (ms (agent s))))(''RandomValue'' \<mapsto> r) \<and>
     (\<forall>m \<in> set (carried (SendBatch (AList.update ''RandomValue'' r (G (ms (agent s)))))).
        MType m = ''gauge'') \<and>
     carried (SendCounter ''PollCount'' (pollCount (agent s))) =
       [NewMetricsForCounter ''PollCount'' (sint (pollCount (agent s)))] \<and>
     sent (run_ticks G (NewAgent ri pi m0) [PollTick m1, ReportTick r o1 o2]) =
       [SendBatch (AList.update ''RandomValue'' r (G m1)), SendCounter ''PollCount'' 1]"
  by (auto simp: sendReport_fields update_conv' run_ticks_def start_def NewAgent_def
        NewMetricsForGauge_def)

text \<open>The hypothesis of the amended C7 at the first tick of a fresh agent.\<close>

theorem sendReport_pushes_witness:
  "reporter (start (NewAgent 10 2 [(''Alloc'', 5 :: float64)])) = Running \<and>
   sent (step (\<lambda>m. m) (start (NewAgent 10 2 [(''Alloc'', 5)])) (ReportTick 7 None None)) =
     [SendBatch [(''Alloc'', 5), (''RandomValue'', 7)], SendCounter ''PollCount'' 0]"
  using sendReport_pushes [of "start (NewAgent 10 2 [(''Alloc'', 5 :: float64)])" "\<lambda>m. m" 7 None None]
  by (simp add: start_def NewAgent_def)

text \<open>
  C7 as stated fails: after one sampler tick and one reporter tick of a fresh agent the
  pushes are not one batch that holds the counter; the counter travels in a call of its
  own, after the batch.
\<close>

theorem counter_not_in_batch_counterexample:
  "\<not> one_batch_with_counter
       (sent (run_ticks (\<lambda>m. m) (NewAgent 10 2 [(''Alloc'', 0 :: float64)])
                [PollTick [(''Alloc'', 1)], ReportTick 7 None None]))
       ''PollCount'' 1"
  by (simp add: agent_eval)


end
